theory Spec2Isabelle
  imports Complex_Main
begin

section \<open>JavaScript values and idioms\<close>

text \<open>
  The backend is JavaScript. Strings are modelled as \<^typ>\<open>string\<close>, one \<^typ>\<open>char\<close> per
  code unit, so that \<open>text.length\<close> is \<^const>\<open>length\<close>. Indices are \<^typ>\<open>int\<close>, because
  the chunker subtracts the overlap from an index before it looks at the sign. A thrown
  \<open>Error\<close> is a value carrying its message; every function that can throw returns
  \<open>error + 'a\<close>.
\<close>

datatype jsval = JStr string | JNum int

datatype error = Error string

fun message :: "error \<Rightarrow> string" where
  "message (Error m) = m"

text \<open>\<open>x || d\<close> on an optional number: \<open>undefined\<close> and \<open>0\<close> are falsy.\<close>

definition or_num :: "nat option \<Rightarrow> nat \<Rightarrow> nat" where
  "or_num x d = (case x of None \<Rightarrow> d | Some n \<Rightarrow> if n = 0 then d else n)"

text \<open>\<open>x || d\<close> on an optional string: \<open>undefined\<close> and the empty string are falsy.\<close>

definition or_str :: "string option \<Rightarrow> string \<Rightarrow> string" where
  "or_str x d = (case x of None \<Rightarrow> d | Some s \<Rightarrow> if s = [] then d else s)"

text \<open>\<open>Number.prototype.toString\<close> on an array index: its decimal digits.\<close>

definition digit :: "nat \<Rightarrow> char" where
  "digit n = char_of (48 + n)"

function toString :: "nat \<Rightarrow> string" where
  "toString n = (if n < 10 then [digit n] else toString (n div 10) @ [digit (n mod 10)])"
  by pat_completeness auto
termination
  by (relation "measure id") auto

text \<open>
  \<open>String.prototype.lastIndexOf(pat, position)\<close>: the largest index \<open>k\<close> not above the
  position (clamped into the string) at which \<open>pat\<close> occurs, or \<open>-1\<close>.
\<close>

definition matches_at :: "string \<Rightarrow> string \<Rightarrow> nat \<Rightarrow> bool" where
  "matches_at text pat k =
     (k + length pat \<le> length text \<and> take (length pat) (drop k text) = pat)"

fun lastIndexOf_from :: "string \<Rightarrow> string \<Rightarrow> nat \<Rightarrow> int" where
  "lastIndexOf_from text pat 0 = (if matches_at text pat 0 then 0 else - 1)"
| "lastIndexOf_from text pat (Suc k) =
     (if matches_at text pat (Suc k) then int (Suc k) else lastIndexOf_from text pat k)"

definition lastIndexOf :: "string \<Rightarrow> string \<Rightarrow> int \<Rightarrow> int" where
  "lastIndexOf text pat position =
     lastIndexOf_from text pat (min (nat position) (length text))"

text \<open>
  \<open>String.prototype.substring(a, b)\<close>: both arguments are clamped into the string and
  swapped when out of order.
\<close>

definition substring :: "string \<Rightarrow> int \<Rightarrow> int \<Rightarrow> string" where
  "substring text a b =
     (let n = int (length text);
          a' = max 0 (min a n);
          b' = max 0 (min b n);
          lo = min a' b';
          hi = max a' b'
      in take (nat (hi - lo)) (drop (nat lo) text))"


section \<open>Chunker (\<open>services/chunkerService.js\<close>)\<close>

text \<open>
  The constructor reads three numbers from its configuration object, each with a default
  taken by \<open>||\<close>; the three fields of the service are the functions below.
\<close>

record chunker_config =
  cfg_maxChunkSize :: "nat option"
  cfg_overlap :: "nat option"
  cfg_minChunkSize :: "nat option"

definition maxChunkSize :: "chunker_config \<Rightarrow> nat" where
  "maxChunkSize c = or_num (cfg_maxChunkSize c) 1000"

definition overlap :: "chunker_config \<Rightarrow> nat" where
  "overlap c = or_num (cfg_overlap c) 100"

definition minChunkSize :: "chunker_config \<Rightarrow> nat" where
  "minChunkSize c = or_num (cfg_minChunkSize c) 100"

text \<open>
  One pass of the \<open>while\<close> loop of \<open>chunkText\<close> has three parts. The first finds
  where the window that starts at \<open>startIndex\<close> ends: the naive end, pulled back to a
  paragraph, sentence or word break when the window does not reach the end of the text.
\<close>

definition window_end :: "chunker_config \<Rightarrow> string \<Rightarrow> int \<Rightarrow> int" where
  "window_end c text startIndex =
     (let endIndex = startIndex + int (maxChunkSize c)
      in if endIndex < int (length text) then
           (let paragraphBreak = lastIndexOf text [CHR 10, CHR 10] endIndex;
                sentenceBreak = lastIndexOf text ''. '' endIndex;
                wordBreak = lastIndexOf text '' '' endIndex
            in if paragraphBreak > startIndex \<and> paragraphBreak > endIndex - 200
               then paragraphBreak + 2
               else if sentenceBreak > startIndex \<and> sentenceBreak > endIndex - 100
               then sentenceBreak + 2
               else if wordBreak > startIndex then wordBreak + 1
               else endIndex)
         else endIndex)"

text \<open>The second keeps the chunk unless it is shorter than the minimum.\<close>

definition push_chunk :: "chunker_config \<Rightarrow> string \<Rightarrow> string list \<Rightarrow> string list" where
  "push_chunk c chunk chunks =
     (if length chunk \<ge> minChunkSize c then chunks @ [chunk] else chunks)"

text \<open>
  The third moves the cursor: back from the end by the overlap, or to the end itself when
  the test commented ``ensure we make progress'' holds. That test compares the new cursor
  with zero and with the number of chunks collected so far.
\<close>

definition next_start :: "chunker_config \<Rightarrow> int \<Rightarrow> string list \<Rightarrow> int" where
  "next_start c endIndex chunks =
     (let startIndex = endIndex - int (overlap c)
      in if startIndex \<le> 0 \<or> startIndex \<le> int (length chunks) - 1
         then endIndex else startIndex)"

text \<open>
  Nothing in the loop bounds the number of passes, so the loop is a partial function:
  \<open>None\<close> is a loop that never exits. The last argument counts the passes made so far;
  it is not a variable of the source.
\<close>

partial_function (option) chunk_loop ::
  "chunker_config \<Rightarrow> string \<Rightarrow> int \<Rightarrow> string list \<Rightarrow> nat \<Rightarrow> (string list \<times> nat) option"
where
  "chunk_loop c text startIndex chunks iters =
     (if startIndex < int (length text) then
        (let endIndex = window_end c text startIndex;
             chunks' = push_chunk c (substring text startIndex endIndex) chunks
         in chunk_loop c text (next_start c endIndex chunks') chunks' (Suc iters))
      else Some (chunks, iters))"

declare chunk_loop.simps [code]

text \<open>
  \<open>chunkText\<close> with its iteration count: a text that fits in one chunk is returned
  whole, without entering the loop.
\<close>

definition chunkText_iters :: "chunker_config \<Rightarrow> string \<Rightarrow> (string list \<times> nat) option" where
  "chunkText_iters c text =
     (if length text \<le> maxChunkSize c then Some ([text], 0)
      else chunk_loop c text 0 [] 0)"

definition chunkText :: "chunker_config \<Rightarrow> string \<Rightarrow> string list option" where
  "chunkText c text = map_option fst (chunkText_iters c text)"

text \<open>
  The bound of the specification, \<open>\<lceil>text.length / (maxSize - overlap)\<rceil>\<close>, for an
  overlap below the maximal chunk size.
\<close>

definition iteration_bound :: "chunker_config \<Rightarrow> string \<Rightarrow> nat" where
  "iteration_bound c text =
     (length text + (maxChunkSize c - overlap c) - 1) div (maxChunkSize c - overlap c)"

text \<open>A pattern occurs somewhere in a text.\<close>

fun occurs_in :: "string \<Rightarrow> string \<Rightarrow> bool" where
  "occurs_in pat [] = (pat = [])"
| "occurs_in pat (x # xs) = (take (length pat) (x # xs) = pat \<or> occurs_in pat xs)"

subsection \<open>Documents and chunks\<close>

record document =
  d_id :: "string option"
  d_title :: "string option"
  d_content :: "string option"
  d_text :: "string option"
  d_source :: "string option"
  d_metadata :: "(string \<rightharpoonup> jsval) option"

record chunk =
  c_text :: string
  c_metadata :: "string \<rightharpoonup> jsval"

text \<open>
  The object literal of \<open>processDocuments\<close>: five computed fields, then the spread of
  \<open>doc.metadata\<close>. A later property of an object literal replaces an earlier one of the
  same name, and spreading \<open>undefined\<close> adds nothing.
\<close>

definition computed_fields :: "nat \<Rightarrow> document \<Rightarrow> nat \<Rightarrow> nat \<Rightarrow> (string \<rightharpoonup> jsval)" where
  "computed_fields docIndex doc chunkIndex totalChunks =
     [''docId'' \<mapsto> JStr (or_str (d_id doc) (toString docIndex)),
      ''docTitle'' \<mapsto> JStr (or_str (d_title doc) (''Document '' @ toString docIndex)),
      ''chunkIndex'' \<mapsto> JNum (int chunkIndex),
      ''totalChunks'' \<mapsto> JNum (int totalChunks),
      ''source'' \<mapsto> JStr (or_str (d_source doc) ''unknown'')]"

definition spread :: "(string \<rightharpoonup> jsval) option \<Rightarrow> (string \<rightharpoonup> jsval)" where
  "spread m = (case m of None \<Rightarrow> Map.empty | Some f \<Rightarrow> f)"

definition make_chunk :: "nat \<Rightarrow> document \<Rightarrow> nat \<Rightarrow> nat \<Rightarrow> string \<Rightarrow> chunk" where
  "make_chunk docIndex doc totalChunks chunkIndex chunkText1 =
     \<lparr>c_text = chunkText1,
      c_metadata = computed_fields docIndex doc chunkIndex totalChunks ++ spread (d_metadata doc)\<rparr>"

text \<open>The inner \<open>forEach\<close>, over the chunks of one document with their indices.\<close>

definition doc_chunks :: "nat \<Rightarrow> document \<Rightarrow> string list \<Rightarrow> chunk list" where
  "doc_chunks docIndex doc docChunks =
     map2 (make_chunk docIndex doc (length docChunks)) [0..<length docChunks] docChunks"

definition doc_body :: "document \<Rightarrow> string" where
  "doc_body doc = or_str (d_content doc) (or_str (d_text doc) [])"

text \<open>The outer \<open>forEach\<close>, from document index \<open>docIndex\<close> on.\<close>

fun processDocuments_from :: "chunker_config \<Rightarrow> nat \<Rightarrow> document list \<Rightarrow> chunk list option" where
  "processDocuments_from c docIndex [] = Some []"
| "processDocuments_from c docIndex (doc # docs) =
     (case chunkText c (doc_body doc) of
        None \<Rightarrow> None
      | Some docChunks \<Rightarrow>
          (case processDocuments_from c (Suc docIndex) docs of
             None \<Rightarrow> None
           | Some rest \<Rightarrow> Some (doc_chunks docIndex doc docChunks @ rest)))"

definition processDocuments :: "chunker_config \<Rightarrow> document list \<Rightarrow> chunk list option" where
  "processDocuments c documents = processDocuments_from c 0 documents"


section \<open>The world outside the process\<close>

text \<open>
  The services talk to four external systems: the embedding endpoint (through
  \<open>axios.post\<close>), the Qdrant vector database, the Gemini chat model and Redis. The first
  three are taken as parameters: each is a function from the provider's state and the
  request to either the error the client library throws or the data of the response,
  and the provider's next state. Nothing is assumed about them, so a provider may fail
  on one call and answer the next. Every call made is also appended to a trace, so that
  a theorem can say which calls a function made. The components of a vector and the
  similarity scores are rationals: nothing below depends on how floating-point numbers
  round.
\<close>

type_synonym embedding = "rat list"

datatype embed_input = One string | Many "string list"

fun inputs_of :: "embed_input \<Rightarrow> string list" where
  "inputs_of (One t) = [t]"
| "inputs_of (Many ts) = ts"

record point =
  p_id :: string
  p_vector :: embedding
  p_payload :: "string \<rightharpoonup> jsval"

record search_request =
  sr_vector :: embedding
  sr_limit :: nat
  sr_with_payload :: bool
  sr_with_vectors :: bool

record hit =
  h_payload :: "string \<rightharpoonup> jsval"
  h_score :: rat

text \<open>A turn of the chat history as Gemini receives it: the role and the text.\<close>

type_synonym turn = "string \<times> string"

datatype call =
    EmbedCall embed_input
  | UpsertCall "point list"
  | SearchCall search_request
  | ChatCall "turn list" string
  | ChatStreamCall "turn list" string

text \<open>
  A streamed answer is the list of fragments the stream delivers and, when the stream
  breaks off, the error that ends it.
\<close>

record 'w apis =
  embed_api :: "'w \<Rightarrow> embed_input \<Rightarrow> (error + embedding list) \<times> 'w"
  qdrant_upsert :: "'w \<Rightarrow> point list \<Rightarrow> (error + unit) \<times> 'w"
  qdrant_search :: "'w \<Rightarrow> search_request \<Rightarrow> (error + hit list) \<times> 'w"
  gemini_send :: "'w \<Rightarrow> turn list \<Rightarrow> string \<Rightarrow> (error + string) \<times> 'w"
  gemini_stream :: "'w \<Rightarrow> turn list \<Rightarrow> string \<Rightarrow> (error + string list \<times> error option) \<times> 'w"

subsection \<open>Chat messages and Redis\<close>

datatype role = User | Assistant

record source_ref =
  s_title :: "jsval option"
  s_source :: "jsval option"
  s_url :: "jsval option"

record chat_message =
  m_role :: role
  m_content :: string
  m_sources :: "source_ref list option"
  m_timestamp :: nat

record cached_result =
  cr_response :: string
  cr_sources :: "source_ref list"

text \<open>
  Redis holds two families of keys, \<open>session:<id>\<close> and \<open>query:<base64 of the query>\<close>,
  each value with the time at which it expires. The two prefixes keep the families apart
  and base64 is injective, so the model has one store per family, keyed by the session
  identifier and by the query itself, and holds the values rather than their JSON text.
  Time is in seconds. A command issued while the connection is down fails.
\<close>

type_synonym 'a store = "string \<rightharpoonup> ('a \<times> nat)"

record redis =
  sessions :: "chat_message list store"
  queries :: "cached_result store"
  connected :: bool

definition store_get :: "'a store \<Rightarrow> nat \<Rightarrow> string \<Rightarrow> 'a option" where
  "store_get st now key =
     (case st key of
        None \<Rightarrow> None
      | Some (v, expires) \<Rightarrow> if now < expires then Some v else None)"

definition store_setex :: "'a store \<Rightarrow> nat \<Rightarrow> string \<Rightarrow> nat \<Rightarrow> 'a \<Rightarrow> 'a store" where
  "store_setex st now key ttl v = st(key \<mapsto> (v, now + ttl))"

definition store_del :: "'a store \<Rightarrow> string \<Rightarrow> 'a store" where
  "store_del st key = st(key := None)"

definition connection_error :: error where
  "connection_error = Error ''Connection is closed.''"

record 'w world =
  provider :: 'w
  trace :: "call list"
  redis :: redis

text \<open>One call to a provider: run it on the provider's state and log it.\<close>

definition invoke :: "('w \<Rightarrow> 'r \<times> 'w) \<Rightarrow> call \<Rightarrow> 'w world \<Rightarrow> 'r \<times> 'w world" where
  "invoke f c w =
     (case f (provider w) of
        (r, p') \<Rightarrow> (r, w\<lparr>provider := p', trace := trace w @ [c]\<rparr>))"


section \<open>Embedding gateway (\<open>services/embeddingService.js\<close>)\<close>

record embedding_config =
  cfg_batchSize :: "nat option"
  cfg_dimension :: "nat option"
  cfg_maxTokens :: "nat option"

definition batchSize :: "embedding_config \<Rightarrow> nat" where
  "batchSize c = or_num (cfg_batchSize c) 20"

definition dimension :: "embedding_config \<Rightarrow> nat" where
  "dimension c = or_num (cfg_dimension c) 768"

definition maxTokens :: "embedding_config \<Rightarrow> nat" where
  "maxTokens c = or_num (cfg_maxTokens c) 1000"

definition approximateCharsPerToken :: nat where
  "approximateCharsPerToken = 4"

definition truncateText :: "embedding_config \<Rightarrow> string \<Rightarrow> string" where
  "truncateText c text =
     (let maxChars = maxTokens c * approximateCharsPerToken
      in if length text > maxChars then substring text 0 (int maxChars) else text)"

text \<open>
  The message of the \<open>TypeError\<close> that reading a property of \<open>undefined\<close> throws.
\<close>

definition undefined_property :: "string \<Rightarrow> string" where
  "undefined_property name =
     ''Cannot read properties of undefined (reading '' @ [CHR 39] @ name @ [CHR 39] @ '')''"

text \<open>
  \<open>embedText\<close>: one request with the truncated text; the answer is the first embedding
  of the response. Whatever is thrown inside the \<open>try\<close>, the failed request or the
  read of \<open>data[0].embedding\<close> on an empty response, is rethrown with a prefix.
\<close>

definition embedText ::
  "embedding_config \<Rightarrow> 'w apis \<Rightarrow> string \<Rightarrow> 'w world \<Rightarrow> (error + embedding) \<times> 'w world" where
  "embedText c a text w =
     (let truncatedText = truncateText c text
      in case invoke (\<lambda>p. embed_api a p (One truncatedText)) (EmbedCall (One truncatedText)) w of
           (Inl e, w') \<Rightarrow> (Inl (Error (''Failed to generate embedding: '' @ message e)), w')
         | (Inr [], w') \<Rightarrow>
             (Inl (Error (''Failed to generate embedding: '' @ undefined_property ''embedding'')),
              w')
         | (Inr (item # _), w') \<Rightarrow> (Inr item, w'))"

text \<open>
  The fallback of \<open>embedBatch\<close>, \<open>for (const text of batch)\<close>: one \<open>embedText\<close> per
  text, a zero vector of the configured dimension where it throws.
\<close>

fun embed_each ::
  "embedding_config \<Rightarrow> 'w apis \<Rightarrow> string list \<Rightarrow> embedding list \<Rightarrow> 'w world \<Rightarrow>
   embedding list \<times> 'w world" where
  "embed_each c a [] embeddings w = (embeddings, w)"
| "embed_each c a (text # batch) embeddings w =
     (case embedText c a text w of
        (Inr embedding, w') \<Rightarrow> embed_each c a batch (embeddings @ [embedding]) w'
      | (Inl individualError, w') \<Rightarrow>
          embed_each c a batch (embeddings @ [replicate (dimension c) 0]) w')"

text \<open>
  The batch loop, \<open>for (let i = 0; i < truncatedTexts.length; i += this.batchSize)\<close>.
  The pauses between requests are not modelled.
\<close>

function embed_loop ::
  "embedding_config \<Rightarrow> 'w apis \<Rightarrow> string list \<Rightarrow> nat \<Rightarrow> embedding list \<Rightarrow> 'w world \<Rightarrow>
   (error + embedding list) \<times> 'w world" where
  "embed_loop c a truncatedTexts i embeddings w =
     (if i < length truncatedTexts then
        (let batch = take (batchSize c) (drop i truncatedTexts)
         in case invoke (\<lambda>p. embed_api a p (Many batch)) (EmbedCall (Many batch)) w of
              (Inr batchEmbeddings, w') \<Rightarrow>
                embed_loop c a truncatedTexts (i + batchSize c) (embeddings @ batchEmbeddings) w'
            | (Inl e, w') \<Rightarrow>
                if length batch > 1 then
                  (case embed_each c a batch embeddings w' of
                     (embeddings', w'') \<Rightarrow>
                       embed_loop c a truncatedTexts (i + batchSize c) embeddings' w'')
                else (Inl (Error (''Failed to generate batch embeddings: '' @ message e)), w'))
      else (Inr embeddings, w))"
  by pat_completeness auto
termination
  by (relation "measure (\<lambda>(c, a, truncatedTexts, i, embeddings, w). length truncatedTexts - i)")
    (auto simp: batchSize_def or_num_def diff_less_mono2 split: option.splits)

definition embedBatch ::
  "embedding_config \<Rightarrow> 'w apis \<Rightarrow> string list \<Rightarrow> 'w world \<Rightarrow>
   (error + embedding list) \<times> 'w world" where
  "embedBatch c a texts w = embed_loop c a (map (truncateText c) texts) 0 [] w"

subsection \<open>What a provider does with a text\<close>




section \<open>Vector index (\<open>services/vectorStoreService.js\<close>)\<close>

record vector_config =
  cfg_vs_dimension :: "nat option"

definition vs_dimension :: "vector_config \<Rightarrow> nat" where
  "vs_dimension c = or_num (cfg_vs_dimension c) 768"

text \<open>
  \<open>addDocuments(documents, embeddings)\<close>. The second argument is optional in the
  model because the one caller in the repository leaves it out; \<open>embeddings.length\<close>
  then throws inside the \<open>try\<close>. The point identifiers are built from \<open>Date.now()\<close>,
  here \<open>now\<close>, and the index. The configured dimension is not read.
\<close>

definition make_point :: "nat \<Rightarrow> embedding list \<Rightarrow> nat \<Rightarrow> 'x chunk_scheme \<Rightarrow> point" where
  "make_point now embeddings i doc =
     \<lparr>p_id = toString now @ ''-'' @ toString i,
      p_vector = embeddings ! i,
      p_payload = [''text'' \<mapsto> JStr (c_text doc)] ++ c_metadata doc\<rparr>"

definition addDocuments ::
  "vector_config \<Rightarrow> 'w apis \<Rightarrow> nat \<Rightarrow> 'x chunk_scheme list \<Rightarrow> embedding list option \<Rightarrow>
   'w world \<Rightarrow> (error + unit) \<times> 'w world" where
  "addDocuments vc a now documents embeddings w =
     (case embeddings of
        None \<Rightarrow>
          (Inl (Error (''Qdrant document insertion failed: '' @ undefined_property ''length'')), w)
      | Some embs \<Rightarrow>
          if length documents \<noteq> length embs then
            (Inl (Error (''Qdrant document insertion failed: '' @
                         ''Documents and embeddings count mismatch'')), w)
          else
            (let points = map2 (make_point now embs) [0..<length documents] documents
             in case invoke (\<lambda>p. qdrant_upsert a p points) (UpsertCall points) w of
                  (Inl e, w') \<Rightarrow>
                    (Inl (Error (''Qdrant document insertion failed: '' @ message e)), w')
                | (Inr u, w') \<Rightarrow> (Inr (), w')))"

record doc_metadata =
  dm_title :: "jsval option"
  dm_source :: "jsval option"
  dm_url :: "jsval option"
  dm_date :: "jsval option"

record retrieved =
  r_text :: "jsval option"
  r_metadata :: doc_metadata
  r_score :: rat

definition to_retrieved :: "hit \<Rightarrow> retrieved" where
  "to_retrieved h =
     \<lparr>r_text = h_payload h ''text'',
      r_metadata = \<lparr>dm_title = h_payload h ''title'', dm_source = h_payload h ''source'',
                    dm_url = h_payload h ''url'', dm_date = h_payload h ''date''\<rparr>,
      r_score = h_score h\<rparr>"

text \<open>
  \<open>similaritySearch(queryEmbedding, limit = 5)\<close>: two parameters, and a request of four
  fields. The order and number of the results are the database's.
\<close>

definition similaritySearch ::
  "'w apis \<Rightarrow> embedding \<Rightarrow> nat option \<Rightarrow> 'w world \<Rightarrow> (error + retrieved list) \<times> 'w world" where
  "similaritySearch a queryEmbedding limit w =
     (let request = \<lparr>sr_vector = queryEmbedding,
                      sr_limit = (case limit of None \<Rightarrow> 5 | Some l \<Rightarrow> l),
                      sr_with_payload = True, sr_with_vectors = False\<rparr>
      in case invoke (\<lambda>p. qdrant_search a p request) (SearchCall request) w of
           (Inl e, w') \<Rightarrow> (Inl (Error (''Qdrant search failed: '' @ message e)), w')
         | (Inr response, w') \<Rightarrow> (Inr (map to_retrieved response), w'))"


section \<open>Ingestion and retrieval (\<open>services/ragService.js\<close>)\<close>

text \<open>
  The string that \<open>ingestArticles\<close> sends to the embedding service, once per chunk, in
  place of the chunk's text.
\<close>

definition debug_text :: string where
  "debug_text =
      ''quia et suscipit\<newline>'' @
      ''suscipit recusandae consequuntur expedita et cum\<newline>'' @
      ''reprehenderit molestiae ut ut quas totam\<newline>'' @
      ''nostrum rerum est autem sunt rem eveniet architecto\<newline>'' @
      ''\<newline>'' @
      ''In conclusion, while sunt aut facere repellat provident occaecati excepturi optio reprehenderit presents significant opportunities, it also raises important questions that will need to be addressed as development continues. The conversation around this topic is likely to evolve as we gain more experience and data.\<newline>'' @
      ''\<newline>'' @
      ''From a policy perspective, there are important considerations regarding regulation, standardization, and oversight. Finding the right balance between enabling innovation and ensuring safety and fairness presents an ongoing challenge.\<newline>'' @
      ''\<newline>'' @
      ''The economic implications cannot be overlooked. Initial investment costs must be weighed against long-term benefits, and the distribution of these costs and benefits across different stakeholders requires careful analysis.\<newline>'' @
      ''\<newline>'' @
      ''Industry leaders have expressed varying opinions on this matter. Some see it as a revolutionary change that will transform established practices, while others view it as an incremental improvement on existing systems.\<newline>'' @
      ''\<newline>'' @
      ''Looking ahead, we can anticipate several possible trajectories for how this might evolve. Optimistic scenarios suggest rapid adoption and integration, while more conservative outlooks predict a slower, more measured approach.\<newline>'' @
      ''\<newline>'' @
      ''User experience is another critical dimension to consider. How will this affect the average person? Will it simplify processes or add additional complexity? These questions remain central to the discussion.\<newline>'' @
      ''\<newline>'' @
      ''The technical aspects of this topic warrant careful consideration. While the fundamental principles are relatively straightforward, the implementation details can become quite complex, especially when scaling to real-world scenarios.\<newline>'' @
      ''\<newline>'' @
      ''When examining sunt aut facere repellat provident occaecati excepturi optio reprehenderit, it's important to consider the historical context. Previous developments in this area have shown mixed results, with some initial excitement followed by periods of reassessment and critical evaluation.''"

record embedded_chunk = chunk +
  c_embedding :: "embedding list"

record ingest_report =
  ir_success :: bool
  ir_message :: string

text \<open>
  \<open>Promise.all\<close> over calls that each issue their request before they first suspend:
  every call runs, in the order of the array; the result is the list of the values, or
  an error. \<open>Promise.all\<close> rejects with the rejection that comes first in time; the
  model takes the first in the order of the array, which can change the message of the
  error and nothing else.
\<close>

fun promise_all :: "('s \<Rightarrow> (error + 'a) \<times> 's) list \<Rightarrow> 's \<Rightarrow> (error + 'a list) \<times> 's" where
  "promise_all [] w = (Inr [], w)"
| "promise_all (f # fs) w =
     (case f w of
        (r, w') \<Rightarrow>
          (case promise_all fs w' of
             (rs, w'') \<Rightarrow>
               ((case r of
                   Inl e \<Rightarrow> Inl e
                 | Inr v \<Rightarrow> (case rs of Inl e \<Rightarrow> Inl e | Inr vs \<Rightarrow> Inr (v # vs))),
                w'')))"

text \<open>
  \<open>ingestArticles\<close>. The chunker is the one the constructor builds, \<open>ingest_chunker\<close>:
  windows of 6000, overlap 200. Each element of \<open>embeddings\<close> is the whole result of one
  \<open>embedBatch\<close> call, a list of vectors. \<open>addDocuments\<close> is called with one argument,
  the chunks with an \<open>embedding\<close> field added, so its second parameter is \<open>undefined\<close>.
  The embedding service it calls is the one that \<open>app.js\<close> exports, not the one given to
  the constructor; the model gives both the same configuration and provider, and takes
  both that service and \<open>this.vectorStore\<close> as bound. Started through \<open>app.js\<close> neither
  is: the circular \<open>require\<close> leaves the imported service \<open>undefined\<close>, and the
  constructor is called with one object, so the call throws before any request. The
  result is \<open>None\<close> when the chunker does not return.
\<close>

definition ingest_chunker :: chunker_config where
  "ingest_chunker =
     \<lparr>cfg_maxChunkSize = Some 6000, cfg_overlap = Some 200, cfg_minChunkSize = None\<rparr>"

definition ingestArticles ::
  "embedding_config \<Rightarrow> vector_config \<Rightarrow> 'w apis \<Rightarrow> nat \<Rightarrow> document list \<Rightarrow> 'w world \<Rightarrow>
   ((error + ingest_report) \<times> 'w world) option" where
  "ingestArticles ec vc a now articles w =
     (case processDocuments ingest_chunker articles of
        None \<Rightarrow> None
      | Some chunks \<Rightarrow>
          Some
           (let texts = map c_text chunks
            in case promise_all (map (\<lambda>text. embedBatch ec a [debug_text]) texts) w of
                 (Inl e, w') \<Rightarrow> (Inl (Error (''Failed to ingest articles: '' @ message e)), w')
               | (Inr embeddings, w') \<Rightarrow>
                   (case addDocuments vc a now
                           (map2 (\<lambda>chunk index.
                                    \<lparr>c_text = c_text chunk, c_metadata = c_metadata chunk,
                                     c_embedding = embeddings ! index\<rparr>)
                              chunks [0..<length chunks])
                           None w' of
                      (Inl e, w'') \<Rightarrow>
                        (Inl (Error (''Failed to ingest articles: '' @ message e)), w'')
                    | (Inr results, w'') \<Rightarrow>
                        (Inr \<lparr>ir_success = True,
                              ir_message = ''Successfully ingested '' @ toString (length chunks) @
                                '' chunks from '' @ toString (length articles) @ '' articles''\<rparr>,
                         w''))))"

text \<open>
  \<open>query(query, options)\<close>: \<open>topK\<close> and \<open>threshold\<close> are read from the options with
  their defaults, and the call site passes both to \<open>similaritySearch\<close>. That function
  has two parameters, so the third argument is dropped by the call.
\<close>

record query_options =
  opt_topK :: "nat option"
  opt_threshold :: "rat option"

definition query ::
  "embedding_config \<Rightarrow> 'w apis \<Rightarrow> string \<Rightarrow> query_options \<Rightarrow> 'w world \<Rightarrow>
   (error + retrieved list) \<times> 'w world" where
  "query ec a queryText options w =
     (let topK = (case opt_topK options of None \<Rightarrow> 5 | Some k \<Rightarrow> k);
          threshold = (case opt_threshold options of None \<Rightarrow> 7 / 10 | Some t \<Rightarrow> t)
      in case embedText ec a queryText w of
           (Inl e, w') \<Rightarrow> (Inl (Error (''Failed to query RAG system: '' @ message e)), w')
         | (Inr queryEmbedding, w') \<Rightarrow>
             (case similaritySearch a queryEmbedding (Some topK) w' of
                (Inl e, w'') \<Rightarrow>
                  (Inl (Error (''Failed to query RAG system: '' @ message e)), w'')
              | (Inr results, w'') \<Rightarrow> (Inr results, w'')))"


section \<open>Answer generation (\<open>services/llmService.js\<close>)\<close>

text \<open>How a template literal prints a value; \<open>undefined\<close> prints as its name.\<close>

definition show_js :: "jsval option \<Rightarrow> string" where
  "show_js v =
     (case v of
        None \<Rightarrow> ''undefined''
      | Some (JStr s) \<Rightarrow> s
      | Some (JNum n) \<Rightarrow> (if n < 0 then ''-'' @ toString (nat (- n)) else toString (nat n)))"

fun join :: "string \<Rightarrow> string list \<Rightarrow> string" where
  "join sep [] = []"
| "join sep [x] = x"
| "join sep (x # y # ys) = x @ sep @ join sep (y # ys)"

definition role_name :: "role \<Rightarrow> string" where
  "role_name r = (case r of User \<Rightarrow> ''user'' | Assistant \<Rightarrow> ''assistant'')"

definition format_context :: "retrieved list \<Rightarrow> string" where
  "format_context retrievedDocs =
     join ''\<newline>\<newline>''
       (map (\<lambda>doc. ''Source: '' @ show_js (dm_title (r_metadata doc)) @ '' ('' @
                    show_js (dm_source (r_metadata doc)) @ '')\<newline>Content: '' @
                    show_js (r_text doc))
          retrievedDocs)"

definition format_history :: "chat_message list \<Rightarrow> turn list" where
  "format_history chatHistory = map (\<lambda>msg. (role_name (m_role msg), m_content msg)) chatHistory"

definition make_prompt :: "string \<Rightarrow> string \<Rightarrow> string" where
  "make_prompt context queryText =
     ''\<newline>You are a helpful assistant that answers questions based on provided context.\<newline>'' @
     ''Please only use the information from the provided news articles to answer the question. \<newline>'' @
     ''If the information is not in the context, say that you don't know based on the available articles.\<newline>'' @
     ''\<newline>CONTEXT:\<newline>'' @ context @ ''\<newline>\<newline>QUESTION:\<newline>'' @ queryText @
     ''\<newline>\<newline>Please provide a concise, accurate answer based solely on the context. '' @
     ''Include sources where appropriate.''"

definition generateResponse ::
  "'w apis \<Rightarrow> string \<Rightarrow> retrieved list \<Rightarrow> chat_message list \<Rightarrow> 'w world \<Rightarrow>
   (error + string) \<times> 'w world" where
  "generateResponse a queryText retrievedDocs chatHistory w =
     (let formattedHistory = format_history chatHistory;
          prompt = make_prompt (format_context retrievedDocs) queryText
      in case invoke (\<lambda>p. gemini_send a p formattedHistory prompt)
                (ChatCall formattedHistory prompt) w of
           (Inl e, w') \<Rightarrow> (Inl (Error (''Gemini API error: '' @ message e)), w')
         | (Inr response, w') \<Rightarrow> (Inr response, w'))"

text \<open>
  The streaming generator: the fragments it yields, empty ones skipped, and the error it
  throws after them if the stream (or the request that opens it) fails.
\<close>

definition generateStreamingResponse ::
  "'w apis \<Rightarrow> string \<Rightarrow> retrieved list \<Rightarrow> chat_message list \<Rightarrow> 'w world \<Rightarrow>
   (string list \<times> error option) \<times> 'w world" where
  "generateStreamingResponse a queryText retrievedDocs chatHistory w =
     (let formattedHistory = format_history chatHistory;
          prompt = make_prompt (format_context retrievedDocs) queryText
      in case invoke (\<lambda>p. gemini_stream a p formattedHistory prompt)
                (ChatStreamCall formattedHistory prompt) w of
           (Inl e, w') \<Rightarrow> (([], Some (Error (''Gemini API streaming error: '' @ message e))), w')
         | (Inr (chunks, None), w') \<Rightarrow> ((filter (\<lambda>chunkText. chunkText \<noteq> []) chunks, None), w')
         | (Inr (chunks, Some e), w') \<Rightarrow>
             ((filter (\<lambda>chunkText. chunkText \<noteq> []) chunks,
               Some (Error (''Gemini API streaming error: '' @ message e))), w'))"


section \<open>Session cache (\<open>services/cacheService.js\<close>)\<close>

record cache_config =
  cfg_defaultTTL :: "nat option"

definition defaultTTL :: "cache_config \<Rightarrow> nat" where
  "defaultTTL c = or_num (cfg_defaultTTL c) 3600"

text \<open>The commands of the Redis client: \<open>SETEX\<close>, \<open>GET\<close> and \<open>DEL\<close>, at time \<open>now\<close>.\<close>

definition setex_session ::
  "redis \<Rightarrow> nat \<Rightarrow> string \<Rightarrow> nat \<Rightarrow> chat_message list \<Rightarrow> error + redis" where
  "setex_session r now key ttl v =
     (if connected r then Inr (r\<lparr>sessions := store_setex (sessions r) now key ttl v\<rparr>)
      else Inl connection_error)"

definition get_session :: "redis \<Rightarrow> nat \<Rightarrow> string \<Rightarrow> error + chat_message list option" where
  "get_session r now key =
     (if connected r then Inr (store_get (sessions r) now key) else Inl connection_error)"

definition del_session :: "redis \<Rightarrow> string \<Rightarrow> error + redis" where
  "del_session r key =
     (if connected r then Inr (r\<lparr>sessions := store_del (sessions r) key\<rparr>)
      else Inl connection_error)"

definition setex_query ::
  "redis \<Rightarrow> nat \<Rightarrow> string \<Rightarrow> nat \<Rightarrow> cached_result \<Rightarrow> error + redis" where
  "setex_query r now key ttl v =
     (if connected r then Inr (r\<lparr>queries := store_setex (queries r) now key ttl v\<rparr>)
      else Inl connection_error)"

definition get_query :: "redis \<Rightarrow> nat \<Rightarrow> string \<Rightarrow> error + cached_result option" where
  "get_query r now key =
     (if connected r then Inr (store_get (queries r) now key) else Inl connection_error)"

text \<open>
  The service methods. Each wraps its command in \<open>try\<close>/\<open>catch\<close>; the \<open>catch\<close> logs
  and turns the failure into \<open>null\<close>, \<open>false\<close> or nothing at all.
\<close>

definition storeChatSession ::
  "cache_config \<Rightarrow> nat \<Rightarrow> string \<Rightarrow> chat_message list \<Rightarrow> 'w world \<Rightarrow> 'w world" where
  "storeChatSession cc now sessionId messages w =
     (case setex_session (redis w) now sessionId (defaultTTL cc) messages of
        Inl e \<Rightarrow> w
      | Inr r' \<Rightarrow> w\<lparr>redis := r'\<rparr>)"

definition getChatSession :: "nat \<Rightarrow> string \<Rightarrow> 'w world \<Rightarrow> chat_message list option" where
  "getChatSession now sessionId w =
     (case get_session (redis w) now sessionId of
        Inl e \<Rightarrow> None
      | Inr None \<Rightarrow> None
      | Inr (Some data) \<Rightarrow> Some data)"

definition deleteChatSession :: "string \<Rightarrow> 'w world \<Rightarrow> bool \<times> 'w world" where
  "deleteChatSession sessionId w =
     (case del_session (redis w) sessionId of
        Inl e \<Rightarrow> (False, w)
      | Inr r' \<Rightarrow> (True, w\<lparr>redis := r'\<rparr>))"

definition cacheQueryResult ::
  "cache_config \<Rightarrow> nat \<Rightarrow> string \<Rightarrow> cached_result \<Rightarrow> 'w world \<Rightarrow> 'w world" where
  "cacheQueryResult cc now queryText result w =
     (case setex_query (redis w) now queryText (defaultTTL cc) result of
        Inl e \<Rightarrow> w
      | Inr r' \<Rightarrow> w\<lparr>redis := r'\<rparr>)"

definition getCachedQueryResult :: "nat \<Rightarrow> string \<Rightarrow> 'w world \<Rightarrow> cached_result option" where
  "getCachedQueryResult now queryText w =
     (case get_query (redis w) now queryText of
        Inl e \<Rightarrow> None
      | Inr None \<Rightarrow> None
      | Inr (Some data) \<Rightarrow> Some data)"


section \<open>Chat controller (\<open>controllers/chatController.js\<close>)\<close>

text \<open>
  A handler takes the request's parameters and the world and returns the response it
  sends and the world it leaves. The clock is read once per request: \<open>now\<close> is both the
  time of the Redis commands and the timestamp of the messages. The session identifier
  that \<open>uuidv4()\<close> draws is a parameter of \<open>createSession\<close>. The optional SQL
  persistence service is absent, as in \<open>app.js\<close>.
\<close>

datatype body =
    SessionCreated string
  | SessionHistory string "chat_message list"
  | Reply chat_message bool
  | Cleared
  | Failure string

record response =
  status :: nat
  body :: body

definition source_of :: "retrieved \<Rightarrow> source_ref" where
  "source_of doc =
     \<lparr>s_title = dm_title (r_metadata doc), s_source = dm_source (r_metadata doc),
      s_url = dm_url (r_metadata doc)\<rparr>"


definition getSessionHistory :: "nat \<Rightarrow> string \<Rightarrow> 'w world \<Rightarrow> response \<times> 'w world" where
  "getSessionHistory now sessionId w =
     (if sessionId = [] then (\<lparr>status = 400, body = Failure ''Session ID is required''\<rparr>, w)
      else
        (case getChatSession now sessionId w of
           None \<Rightarrow> (\<lparr>status = 404, body = Failure ''Chat session not found''\<rparr>, w)
         | Some history \<Rightarrow> (\<lparr>status = 200, body = SessionHistory sessionId history\<rparr>, w)))"

definition user_message :: "nat \<Rightarrow> string \<Rightarrow> chat_message" where
  "user_message now msg =
     \<lparr>m_role = User, m_content = msg, m_sources = None, m_timestamp = now\<rparr>"

definition bot_message :: "nat \<Rightarrow> string \<Rightarrow> source_ref list \<Rightarrow> chat_message" where
  "bot_message now content sources =
     \<lparr>m_role = Assistant, m_content = content, m_sources = Some sources, m_timestamp = now\<rparr>"

definition failed_to_process :: response where
  "failed_to_process = \<lparr>status = 500, body = Failure ''Failed to process your message''\<rparr>"

text \<open>
  \<open>sendMessage\<close>. The history read from Redis, or the empty array when there is none,
  gets the user's message; a cached result for the same query answers at once; otherwise
  the query is embedded, the index searched and the model asked. Anything thrown on the
  way is answered with status 500, nothing stored.
\<close>

definition sendMessage ::
  "cache_config \<Rightarrow> embedding_config \<Rightarrow> 'w apis \<Rightarrow> nat \<Rightarrow> string \<Rightarrow> string \<Rightarrow> 'w world \<Rightarrow>
   response \<times> 'w world" where
  "sendMessage cc ec a now sessionId msg w =
     (if sessionId = [] \<or> msg = [] then
        (\<lparr>status = 400, body = Failure ''Session ID and message are required''\<rparr>, w)
      else
        (let history0 = (case getChatSession now sessionId w of None \<Rightarrow> [] | Some h \<Rightarrow> h);
             userMessage = user_message now msg;
             history = history0 @ [userMessage]
         in case getCachedQueryResult now msg w of
              Some cachedResult \<Rightarrow>
                (let botMessage =
                       bot_message now (cr_response cachedResult) (cr_sources cachedResult)
                 in (\<lparr>status = 200, body = Reply botMessage True\<rparr>,
                     storeChatSession cc now sessionId (history @ [botMessage]) w))
            | None \<Rightarrow>
                (case embedText ec a msg w of
                   (Inl e, w1) \<Rightarrow> (failed_to_process, w1)
                 | (Inr queryEmbedding, w1) \<Rightarrow>
                     (case similaritySearch a queryEmbedding (Some 5) w1 of
                        (Inl e, w2) \<Rightarrow> (failed_to_process, w2)
                      | (Inr relevantDocs, w2) \<Rightarrow>
                          (case generateResponse a msg relevantDocs history w2 of
                             (Inl e, w3) \<Rightarrow> (failed_to_process, w3)
                           | (Inr response, w3) \<Rightarrow>
                               (let botMessage =
                                      bot_message now response (map source_of relevantDocs);
                                    w4 = storeChatSession cc now sessionId
                                           (history @ [botMessage]) w3;
                                    w5 = cacheQueryResult cc now msg
                                           \<lparr>cr_response = response,
                                            cr_sources = map source_of relevantDocs\<rparr> w4
                                in (\<lparr>status = 200, body = Reply botMessage False\<rparr>, w5)))))))"

text \<open>
  \<open>streamMessage\<close> answers with server-sent events. It stores the history with the
  user's message before it calls any provider, and has no cache lookup. An error at any
  later point ends the stream with an \<open>error\<close> event.
\<close>

datatype sse = Start | Sources "source_ref list" | Fragment string | End | ErrorEvent string

datatype stream_response = Rejected response | Events "sse list"

definition stream_error :: sse where
  "stream_error = ErrorEvent ''An error occurred while processing your message''"

definition streamMessage ::
  "cache_config \<Rightarrow> embedding_config \<Rightarrow> 'w apis \<Rightarrow> nat \<Rightarrow> string \<Rightarrow> string \<Rightarrow> 'w world \<Rightarrow>
   stream_response \<times> 'w world" where
  "streamMessage cc ec a now sessionId msg w =
     (if sessionId = [] \<or> msg = [] then
        (Rejected \<lparr>status = 400, body = Failure ''Session ID and message are required''\<rparr>, w)
      else
        (let history0 = (case getChatSession now sessionId w of None \<Rightarrow> [] | Some h \<Rightarrow> h);
             userMessage = user_message now msg;
             history = history0 @ [userMessage];
             w1 = storeChatSession cc now sessionId history w
         in case embedText ec a msg w1 of
              (Inl e, w2) \<Rightarrow> (Events [stream_error], w2)
            | (Inr queryEmbedding, w2) \<Rightarrow>
                (case similaritySearch a queryEmbedding (Some 5) w2 of
                   (Inl e, w3) \<Rightarrow> (Events [stream_error], w3)
                 | (Inr relevantDocs, w3) \<Rightarrow>
                     (let sources = map source_of relevantDocs;
                          opening = [Start, Sources sources]
                      in case generateStreamingResponse a msg relevantDocs history w3 of
                           ((chunks, Some e), w4) \<Rightarrow>
                             (Events (opening @ map Fragment chunks @ [stream_error]), w4)
                         | ((chunks, None), w4) \<Rightarrow>
                             (let fullResponse = concat chunks;
                                  botMessage = bot_message now fullResponse sources;
                                  w5 = storeChatSession cc now sessionId
                                         (history @ [botMessage]) w4;
                                  w6 = cacheQueryResult cc now msg
                                         \<lparr>cr_response = fullResponse, cr_sources = sources\<rparr> w5
                              in (Events (opening @ map Fragment chunks @ [End]), w6))))))"

definition clearSession :: "cache_config \<Rightarrow> nat \<Rightarrow> string \<Rightarrow> 'w world \<Rightarrow> response \<times> 'w world" where
  "clearSession cc now sessionId w =
     (if sessionId = [] then (\<lparr>status = 400, body = Failure ''Session ID is required''\<rparr>, w)
      else
        (case deleteChatSession sessionId w of
           (deleted, w1) \<Rightarrow>
             (\<lparr>status = 200, body = Cleared\<rparr>, storeChatSession cc now sessionId [] w1)))"

section \<open>Example inputs\<close>

text \<open>A small chunker, and two texts of 35 characters: one of words, one without a break.\<close>

definition small_cfg :: chunker_config where
  "small_cfg = \<lparr>cfg_maxChunkSize = Some 10, cfg_overlap = Some 2, cfg_minChunkSize = Some 1\<rparr>"

definition words_text :: string where
  "words_text = ''aaaaaa aaaaaa aaaaaa aaaaaa aaaaaa ''"

definition plain_text :: string where
  "plain_text = ''aaaaaaaaaaaaaaaaaaaaaaaaaaaaaaaaaaa''"

text \<open>A chunker whose minimum chunk size exceeds its overlap, and a text with one space.\<close>

definition stall_cfg :: chunker_config where
  "stall_cfg = \<lparr>cfg_maxChunkSize = Some 10, cfg_overlap = Some 3, cfg_minChunkSize = Some 4\<rparr>"

definition stall_text :: string where
  "stall_text = ''aaaaaa aaaaaaaaaaaaa''"

text \<open>An article whose own metadata carries two of the keys that the chunker computes.\<close>

definition override_doc :: document where
  "override_doc =
     \<lparr>d_id = Some ''a1'', d_title = Some ''Title'', d_content = Some ''hello'',
      d_text = None, d_source = Some ''feed'',
      d_metadata = Some [''docId'' \<mapsto> JStr ''other'', ''chunkIndex'' \<mapsto> JNum 7]\<rparr>"

definition metadata_of :: "string \<Rightarrow> chunk list option \<Rightarrow> jsval option list option" where
  "metadata_of k r = map_option (map (\<lambda>ch. c_metadata ch k)) r"



definition empty_redis :: redis where
  "empty_redis = \<lparr>sessions = Map.empty, queries = Map.empty, connected = True\<rparr>"

definition w0 :: "unit world" where
  "w0 = \<lparr>provider = (), trace = [], redis = empty_redis\<rparr>"

text \<open>An embedding service with the default batch size and three-dimensional vectors.\<close>

definition small_ec :: embedding_config where
  "small_ec = \<lparr>cfg_batchSize = None, cfg_dimension = Some 3, cfg_maxTokens = None\<rparr>"


text \<open>
  Providers that all work: one fixed embedding per text, an index that accepts every
  upsert and answers every search with its two best hits (scores 0.9 and 0.5) cut to the
  limit of the request, and a model with one fixed answer.
\<close>

definition demo_hits :: "hit list" where
  "demo_hits =
     [\<lparr>h_payload = [''text'' \<mapsto> JStr ''First text'', ''title'' \<mapsto> JStr ''First'',
                     ''source'' \<mapsto> JStr ''feed''], h_score = 9 / 10\<rparr>,
      \<lparr>h_payload = [''text'' \<mapsto> JStr ''Second text'', ''title'' \<mapsto> JStr ''Second'',
                     ''source'' \<mapsto> JStr ''feed''], h_score = 1 / 2\<rparr>]"

definition demo_apis :: "unit apis" where
  "demo_apis =
     \<lparr>embed_api = (\<lambda>p inp. (Inr (map (\<lambda>t. [1, 0, 0]) (inputs_of inp)), p)),
      qdrant_upsert = (\<lambda>p points. (Inr (), p)),
      qdrant_search = (\<lambda>p request. (Inr (take (sr_limit request) demo_hits), p)),
      gemini_send = (\<lambda>p history prompt. (Inr ''An answer.'', p)),
      gemini_stream = (\<lambda>p history prompt. (Inr ([''An '', [], ''answer.''], None), p))\<rparr>"

definition default_vc :: vector_config where
  "default_vc = \<lparr>cfg_vs_dimension = None\<rparr>"

definition hello_chunk :: chunk where
  "hello_chunk = \<lparr>c_text = ''hello'', c_metadata = [''docId'' \<mapsto> JStr ''a1'']\<rparr>"

definition article1 :: document where
  "article1 =
     \<lparr>d_id = Some ''a1'', d_title = Some ''Title'', d_content = Some ''hello'',
      d_text = None, d_source = Some ''feed'', d_metadata = None\<rparr>"

text \<open>What a trace says was sent to the embedding endpoint and to the index.\<close>

fun embedded :: "call list \<Rightarrow> embed_input list" where
  "embedded [] = []"
| "embedded (EmbedCall inp # cs) = inp # embedded cs"
| "embedded (c # cs) = embedded cs"

fun upserted :: "call list \<Rightarrow> point list" where
  "upserted [] = []"
| "upserted (UpsertCall points # cs) = points @ upserted cs"
| "upserted (c # cs) = upserted cs"

definition ingest_summary ::
  "((error + ingest_report) \<times> 'w world) option \<Rightarrow>
   ((error + ingest_report) \<times> embed_input list \<times> nat) option" where
  "ingest_summary r =
     map_option (\<lambda>(res, w). (res, embedded (trace w), length (upserted (trace w)))) r"


text \<open>
  A cache with the default lifetime of one hour, and the worlds after a first message
  \<open>hello\<close> on session \<open>s1\<close> at time 100, sent and streamed.
\<close>

definition default_cc :: cache_config where
  "default_cc = \<lparr>cfg_defaultTTL = None\<rparr>"

definition first_turn :: "response \<times> unit world" where
  "first_turn = sendMessage default_cc small_ec demo_apis 100 ''s1'' ''hello'' w0"

definition first_stream :: "stream_response \<times> unit world" where
  "first_stream = streamMessage default_cc small_ec demo_apis 100 ''s1'' ''hello'' w0"

definition demo_sources :: "source_ref list" where
  "demo_sources = map source_of (map to_retrieved demo_hits)"


section \<open>Properties of the chunker\<close>

subsection \<open>Break points\<close>

lemma matches_at_occurs: "matches_at text pat k \<Longrightarrow> occurs_in pat text"
proof (induction "text" arbitrary: k)
  case Nil
  then show ?case by (simp add: matches_at_def)
next
  case (Cons x xs)
  show ?case
  proof (cases k)
    case 0
    with Cons.prems show ?thesis by (simp add: matches_at_def)
  next
    case (Suc j)
    with Cons.prems have "matches_at xs pat j" by (simp add: matches_at_def)
    then show ?thesis using Cons.IH by simp
  qed
qed

lemma lastIndexOf_from_absent: "\<not> occurs_in pat text \<Longrightarrow> lastIndexOf_from text pat k = - 1"
  by (induction k) (auto dest: matches_at_occurs)

lemma lastIndexOf_absent: "\<not> occurs_in pat text \<Longrightarrow> lastIndexOf text pat p = - 1"
  by (simp add: lastIndexOf_def lastIndexOf_from_absent)

lemma sentence_needs_space: "occurs_in ''. '' text \<Longrightarrow> occurs_in '' '' text"
proof (induction "text")
  case Nil
  then show ?case by simp
next
  case (Cons x xs)
  then show ?case by (cases xs) auto
qed

lemma ceil_div_last:
  fixes L d k :: nat
  assumes "0 < d" "k * d < L" "L \<le> Suc k * d"
  shows "(L + d - 1) div d = Suc k"
proof -
  have "Suc k * d \<le> L + d - 1" using assms by simp
  then have lo: "Suc k \<le> (L + d - 1) div d"
    using assms(1) by (metis div_le_mono div_mult_self_is_m)
  have "L + d - 1 < Suc (Suc k) * d" using assms by simp
  then have "(L + d - 1) div d < Suc (Suc k)"
    using assms(1) by (simp add: less_mult_imp_div_less)
  with lo show ?thesis by simp
qed

subsection \<open>The loop on a text without break points\<close>

text \<open>
  With no space and no blank line in the text every window keeps its naive end, so after
  \<open>k\<close> passes the cursor stands at \<open>k * (maxChunkSize - overlap)\<close> and at most \<open>k\<close>
  chunks have been collected; the progress test never fires.
\<close>

lemma chunk_loop_plain:
  fixes c :: chunker_config and "text" :: string
  defines "d \<equiv> maxChunkSize c - overlap c"
  assumes ov: "overlap c < maxChunkSize c"
    and sp: "\<not> occurs_in '' '' text"
    and pb: "\<not> occurs_in [CHR 10, CHR 10] text"
    and len: "length chunks \<le> k"
  shows "\<exists>cs. chunk_loop c text (int (k * d)) chunks k =
           Some (cs, if k * d < length text then (length text + d - 1) div d else k)"
  using len
proof (induction "length text - k * d" arbitrary: k chunks rule: less_induct)
  case less
  have dpos: "0 < d" using ov by (simp add: d_def)
  show ?case
  proof (cases "k * d < length text")
    case False
    then have "\<not> int (k * d) < int (length text)"
      by (simp only: of_nat_less_iff not_False_eq_True)
    then show ?thesis using False by (subst chunk_loop.simps) (simp del: of_nat_mult)
  next
    case True
    have nb: "lastIndexOf text [CHR 10, CHR 10] p = - 1" "lastIndexOf text ''. '' p = - 1"
      "lastIndexOf text '' '' p = - 1" for p
    proof -
      show "lastIndexOf text [CHR 10, CHR 10] p = - 1" using pb by (rule lastIndexOf_absent)
      show "lastIndexOf text '' '' p = - 1" using sp by (rule lastIndexOf_absent)
      have "\<not> occurs_in ''. '' text" using sp sentence_needs_space by blast
      then show "lastIndexOf text ''. '' p = - 1" by (rule lastIndexOf_absent)
    qed
    have we: "window_end c text (int (k * d)) = int (k * d) + int (maxChunkSize c)"
      by (simp add: window_end_def Let_def nb del: of_nat_mult)
    define chunks' where
      "chunks' =
         push_chunk c (substring text (int (k * d)) (int (k * d) + int (maxChunkSize c))) chunks"
    have len': "length chunks' \<le> Suc k"
      using less.prems by (simp add: chunks'_def push_chunk_def)
    have next_eq: "int (k * d) + int (maxChunkSize c) - int (overlap c) = int (Suc k * d)"
    proof -
      have "int d = int (maxChunkSize c) - int (overlap c)" using ov by (simp add: d_def)
      then show ?thesis by (simp add: algebra_simps)
    qed
    have pos: "\<not> (int (Suc k * d) \<le> 0 \<or> int (Suc k * d) \<le> int (length chunks') - 1)"
    proof -
      have "Suc k * 1 \<le> Suc k * d" using dpos by (intro mult_le_mono2) simp
      then have "Suc k \<le> Suc k * d" by simp
      then have a: "int (Suc k) \<le> int (Suc k * d)" by (simp only: of_nat_le_iff)
      have b: "int (length chunks') \<le> int (Suc k)" using len' by (simp only: of_nat_le_iff)
      have "0 < int (Suc k)" by simp
      with a b show ?thesis by linarith
    qed
    have ns: "next_start c (int (k * d) + int (maxChunkSize c)) chunks' = int (Suc k * d)"
      unfolding next_start_def Let_def next_eq using pos by (simp only: if_False)
    have lt: "int (k * d) < int (length text)" using True by (simp only: of_nat_less_iff)
    have step: "chunk_loop c text (int (k * d)) chunks k =
                chunk_loop c text (int (Suc k * d)) chunks' (Suc k)"
      by (subst chunk_loop.simps) (simp only: lt if_True Let_def we ns flip: chunks'_def)
    have "length text - Suc k * d < length text - k * d"
      using True dpos by (simp add: diff_less_mono2)
    from less.hyps[OF this len'] obtain cs where
      cs: "chunk_loop c text (int (Suc k * d)) chunks' (Suc k) =
             Some (cs, if Suc k * d < length text then (length text + d - 1) div d else Suc k)"
      by blast
    have "(if Suc k * d < length text then (length text + d - 1) div d else Suc k) =
          (length text + d - 1) div d"
      using ceil_div_last[OF dpos True] by auto
    with cs step True show ?thesis by simp
  qed
qed

text \<open>
  C6, as amended. For every text longer than \<open>maxChunkSize\<close> that holds no break point
  (no space, hence no sentence or word break, and no blank line), and an overlap smaller
  than \<open>maxChunkSize\<close>, \<open>chunkText\<close> returns after exactly
  \<open>\<lceil>text.length / (maxChunkSize - overlap)\<rceil>\<close> passes of its loop.
\<close>

theorem chunkText_iterations_without_breaks:
  assumes "maxChunkSize c < length text"
    and "overlap c < maxChunkSize c"
    and "\<not> occurs_in '' '' text"
    and "\<not> occurs_in [CHR 10, CHR 10] text"
  shows "\<exists>chunks. chunkText_iters c text = Some (chunks, iteration_bound c text)"
proof -
  have "text \<noteq> []" using assms(1) by auto
  then show ?thesis
    using chunk_loop_plain[OF assms(2,3,4), of "[]" 0] assms(1)
    by (simp add: chunkText_iters_def iteration_bound_def)
qed

theorem chunkText_iterations_without_breaks_witness:
  "maxChunkSize small_cfg < length plain_text \<and> overlap small_cfg < maxChunkSize small_cfg \<and>
   \<not> occurs_in '' '' plain_text \<and> \<not> occurs_in [CHR 10, CHR 10] plain_text \<and>
   iteration_bound small_cfg plain_text = 5 \<and>
   (\<exists>chunks. chunkText_iters small_cfg plain_text = Some (chunks, iteration_bound small_cfg plain_text))"
proof -
  have h1: "maxChunkSize small_cfg < length plain_text" by code_simp
  have h2: "overlap small_cfg < maxChunkSize small_cfg" by code_simp
  have h3: "\<not> occurs_in '' '' plain_text" by code_simp
  have h4: "\<not> occurs_in [CHR 10, CHR 10] plain_text" by code_simp
  have h5: "iteration_bound small_cfg plain_text = 5" by code_simp
  from chunkText_iterations_without_breaks[OF h1 h2 h3 h4] h1 h2 h3 h4 h5
  show ?thesis by blast
qed

text \<open>
  C6 as stated fails. With windows of 10, overlap 2 and a text of 35 characters made of
  six-letter words, every window is pulled back to a word break; the cursor advances in
  every pass, by less than \<open>maxChunkSize - overlap\<close>, and the loop makes 6 passes where
  the bound is 5.
\<close>

theorem chunkText_bound_counterexample:
  "maxChunkSize small_cfg < length words_text \<and>
   map_option snd (chunkText_iters small_cfg words_text) = Some 6 \<and>
   iteration_bound small_cfg words_text = 5"
  by code_simp

subsection \<open>A cursor that does not advance\<close>

text \<open>
  The progress test does not compare the new cursor with the old one. When a word break
  leaves a window no longer than the overlap and the chunk is below the minimum size,
  the next pass starts where this one did, with the same chunks: for \<open>stall_cfg\<close> and
  \<open>stall_text\<close> the second pass repeats forever.
\<close>

lemma stall_step:
  "window_end stall_cfg stall_text 4 = 7"
  "push_chunk stall_cfg (substring stall_text 4 7) [''aaaaaa ''] = [''aaaaaa '']"
  "next_start stall_cfg 7 [''aaaaaa ''] = 4"
  by code_simp+

lemma stall_first:
  "chunk_loop stall_cfg stall_text 0 [] 0 = chunk_loop stall_cfg stall_text 4 [''aaaaaa ''] 1"
proof -
  have "window_end stall_cfg stall_text 0 = 7" by code_simp
  moreover have "push_chunk stall_cfg (substring stall_text 0 7) [] = [''aaaaaa '']"
    by code_simp
  moreover have "next_start stall_cfg 7 [''aaaaaa ''] = 4" by code_simp
  moreover have "(0::int) < int (length stall_text)" by code_simp
  ultimately show ?thesis by (subst chunk_loop.simps) (simp add: Let_def)
qed

lemma stall_forever: "chunk_loop stall_cfg stall_text 4 [''aaaaaa ''] n \<noteq> Some y"
proof
  assume run: "chunk_loop stall_cfg stall_text 4 [''aaaaaa ''] n = Some y"
  have "\<not> (stall_cfg = stall_cfg \<and> stall_text = stall_text \<and> (4::int) = 4 \<and>
           [''aaaaaa ''] = [''aaaaaa ''])"
  proof (rule chunk_loop.raw_induct
      [where P = "\<lambda>c t s ch i r.
                    \<not> (c = stall_cfg \<and> t = stall_text \<and> s = 4 \<and> ch = [''aaaaaa ''])",
        OF _ run])
    fix f c t s ch i r
    assume IH: "\<And>c' t' s' ch' i' r'. f c' t' s' ch' i' = Some r' \<Longrightarrow>
                  \<not> (c' = stall_cfg \<and> t' = stall_text \<and> s' = 4 \<and> ch' = [''aaaaaa ''])"
      and body: "(if s < int (length t)
                  then let endIndex = window_end c t s;
                           chunks' = push_chunk c (substring t s endIndex) ch
                       in f c t (next_start c endIndex chunks') chunks' (Suc i)
                  else Some (ch, i)) = Some r"
    show "\<not> (c = stall_cfg \<and> t = stall_text \<and> s = 4 \<and> ch = [''aaaaaa ''])"
    proof
      assume eq: "c = stall_cfg \<and> t = stall_text \<and> s = 4 \<and> ch = [''aaaaaa '']"
      have lt: "4 < length stall_text" by code_simp
      from body eq have "f stall_cfg stall_text 4 [''aaaaaa ''] (Suc i) = Some r"
        by (simp add: lt Let_def stall_step)
      from IH[OF this] show False by simp
    qed
  qed
  then show False by simp
qed

lemma chunkText_stalls: "chunkText stall_cfg stall_text = None"
proof -
  have "length stall_text > maxChunkSize stall_cfg" by code_simp
  moreover have "chunk_loop stall_cfg stall_text 4 [''aaaaaa ''] 1 = None"
    using stall_forever[of 1]
    by (cases "chunk_loop stall_cfg stall_text 4 [''aaaaaa ''] 1") auto
  then have "chunk_loop stall_cfg stall_text 0 [] 0 = None"
    by (simp only: stall_first)
  ultimately show ?thesis by (simp add: chunkText_def chunkText_iters_def)
qed

subsection \<open>Metadata of the chunks\<close>

lemma doc_chunks_member:
  assumes "ch \<in> set (doc_chunks docIndex doc docChunks)"
  shows "\<exists>chunkIndex<length docChunks.
           ch = make_chunk docIndex doc (length docChunks) chunkIndex (docChunks ! chunkIndex)"
proof -
  from assms obtain p where p: "p \<in> set (zip [0..<length docChunks] docChunks)"
    and ch: "ch = make_chunk docIndex doc (length docChunks) (fst p) (snd p)"
    by (auto simp: doc_chunks_def)
  from p obtain n where "n < length docChunks" "fst p = n" "snd p = docChunks ! n"
    by (auto simp: set_zip)
  with ch show ?thesis by auto
qed

lemma make_chunk_metadata:
  "(spread (d_metadata doc) k = Some v \<longrightarrow>
      c_metadata (make_chunk docIndex doc n chunkIndex t) k = Some v) \<and>
   (spread (d_metadata doc) k = None \<longrightarrow>
      c_metadata (make_chunk docIndex doc n chunkIndex t) k =
        computed_fields docIndex doc chunkIndex n k)"
  by (simp add: make_chunk_def map_add_def)

lemma processDocuments_from_member:
  assumes "processDocuments_from c i docs = Some chunks" and "ch \<in> set chunks"
  shows "\<exists>j<length docs. \<exists>docChunks. \<exists>chunkIndex<length docChunks.
           chunkText c (doc_body (docs ! j)) = Some docChunks \<and>
           ch = make_chunk (i + j) (docs ! j) (length docChunks) chunkIndex
                  (docChunks ! chunkIndex)"
  using assms
proof (induction docs arbitrary: i chunks)
  case Nil
  then show ?case by simp
next
  case (Cons doc docs)
  from Cons.prems(1) obtain docChunks rest where
    dc: "chunkText c (doc_body doc) = Some docChunks"
    and rest: "processDocuments_from c (Suc i) docs = Some rest"
    and chunks: "chunks = doc_chunks i doc docChunks @ rest"
    by (auto split: option.splits)
  from Cons.prems(2) chunks
  consider "ch \<in> set (doc_chunks i doc docChunks)" | "ch \<in> set rest"
    by auto
  then show ?case
  proof cases
    case 1
    from doc_chunks_member[OF this] dc show ?thesis
      by (intro exI[of _ 0]) auto
  next
    case 2
    from Cons.IH[OF rest this] obtain j docChunks' chunkIndex where
      "j < length docs" "chunkIndex < length docChunks'"
      "chunkText c (doc_body (docs ! j)) = Some docChunks'"
      "ch = make_chunk (Suc i + j) (docs ! j) (length docChunks') chunkIndex
              (docChunks' ! chunkIndex)"
      by blast
    then show ?thesis
      by (intro exI[of _ "Suc j"]) auto
  qed
qed

text \<open>
  C3, as amended. Every chunk that \<open>processDocuments\<close> produces comes from one document
  and one position in that document's chunks, and its metadata holds the document's own
  value for every key that the document's metadata has, the four keys \<open>docId\<close>,
  \<open>docTitle\<close>, \<open>chunkIndex\<close> and \<open>totalChunks\<close> (and \<open>source\<close>) included; the values
  computed by the chunker appear only under keys that the document's metadata lacks.
\<close>

theorem processDocuments_metadata:
  assumes "processDocuments c docs = Some chunks" and "ch \<in> set chunks"
  shows "\<exists>docIndex<length docs. \<exists>docChunks. \<exists>chunkIndex<length docChunks.
           chunkText c (doc_body (docs ! docIndex)) = Some docChunks \<and>
           c_text ch = docChunks ! chunkIndex \<and>
           (\<forall>k v. spread (d_metadata (docs ! docIndex)) k = Some v \<longrightarrow>
                  c_metadata ch k = Some v) \<and>
           (\<forall>k. spread (d_metadata (docs ! docIndex)) k = None \<longrightarrow>
                c_metadata ch k =
                  computed_fields docIndex (docs ! docIndex) chunkIndex (length docChunks) k)"
proof -
  from processDocuments_from_member[OF assms[unfolded processDocuments_def]]
  obtain j docChunks chunkIndex where j: "j < length docs"
    and ci: "chunkIndex < length docChunks"
    and dc: "chunkText c (doc_body (docs ! j)) = Some docChunks"
    and ch: "ch = make_chunk j (docs ! j) (length docChunks) chunkIndex (docChunks ! chunkIndex)"
    by auto
  have "c_text ch = docChunks ! chunkIndex" by (simp add: ch make_chunk_def)
  with j ci dc
    make_chunk_metadata[of "docs ! j" _ _ j "length docChunks" chunkIndex "docChunks ! chunkIndex"]
  show ?thesis unfolding ch by blast
qed

lemma override_run:
  "processDocuments ingest_chunker [override_doc] = Some [make_chunk 0 override_doc 1 0 ''hello'']"
  by (simp add: processDocuments_def chunkText_def chunkText_iters_def ingest_chunker_def
      override_doc_def doc_body_def or_str_def maxChunkSize_def or_num_def doc_chunks_def)

theorem processDocuments_metadata_witness:
  "processDocuments ingest_chunker [override_doc] = Some [make_chunk 0 override_doc 1 0 ''hello''] \<and>
   make_chunk 0 override_doc 1 0 ''hello'' \<in> set [make_chunk 0 override_doc 1 0 ''hello''] \<and>
   (\<exists>docIndex<length [override_doc]. \<exists>docChunks. \<exists>chunkIndex<length docChunks.
      chunkText ingest_chunker (doc_body ([override_doc] ! docIndex)) = Some docChunks \<and>
      c_text (make_chunk 0 override_doc 1 0 ''hello'') = docChunks ! chunkIndex \<and>
      (\<forall>k v. spread (d_metadata ([override_doc] ! docIndex)) k = Some v \<longrightarrow>
             c_metadata (make_chunk 0 override_doc 1 0 ''hello'') k = Some v) \<and>
      (\<forall>k. spread (d_metadata ([override_doc] ! docIndex)) k = None \<longrightarrow>
           c_metadata (make_chunk 0 override_doc 1 0 ''hello'') k =
             computed_fields docIndex ([override_doc] ! docIndex) chunkIndex
               (length docChunks) k))"
proof -
  have h1: "processDocuments ingest_chunker [override_doc] =
              Some [make_chunk 0 override_doc 1 0 ''hello'']"
    by (rule override_run)
  have h2: "make_chunk 0 override_doc 1 0 ''hello'' \<in>
              set [make_chunk 0 override_doc 1 0 ''hello'']"
    by simp
  from processDocuments_metadata[OF h1 h2] h1 h2 show ?thesis by blast
qed

text \<open>
  C3 as stated fails: the spread of \<open>doc.metadata\<close> is the last entry of the object
  literal, so it also replaces the reserved keys. An article with id \<open>a1\<close> whose metadata
  carries \<open>docId = other\<close> and \<open>chunkIndex = 7\<close> yields one chunk with exactly those two
  values, not the computed \<open>a1\<close> and \<open>0\<close>.
\<close>

theorem processDocuments_reserved_keys_counterexample:
  "metadata_of ''docId'' (processDocuments ingest_chunker [override_doc]) =
     Some [Some (JStr ''other'')] \<and>
   computed_fields 0 override_doc 0 1 ''docId'' = Some (JStr ''a1'') \<and>
   metadata_of ''chunkIndex'' (processDocuments ingest_chunker [override_doc]) =
     Some [Some (JNum 7)] \<and>
   computed_fields 0 override_doc 0 1 ''chunkIndex'' = Some (JNum 0)"
  by code_simp


section \<open>Properties of the embedding gateway\<close>

lemma batchSize_pos: "0 < batchSize c"
  by (simp add: batchSize_def or_num_def split: option.splits)














section \<open>Properties of the vector index\<close>

lemma map_p_vector:
  assumes "length documents = length embs"
  shows "map p_vector (map2 (make_point now embs) [0..<length documents] documents) = embs"
  using assms by (intro nth_equalityI) (simp_all add: make_point_def)

text \<open>
  C5, as amended. \<open>addDocuments\<close> validates one thing, that there are as many
  embeddings as documents: when the counts differ it fails with a count-mismatch error and
  calls no provider. When they agree it sends every vector to the database as it is,
  whatever its length, and fails exactly when the database rejects the upsert.
\<close>

theorem addDocuments_checks_counts_only:
  "(length documents \<noteq> length embs \<longrightarrow>
      addDocuments vc a now documents (Some embs) w =
        (Inl (Error ''Qdrant document insertion failed: Documents and embeddings count mismatch''), w)) \<and>
   (length documents = length embs \<longrightarrow>
      (\<exists>r w' points. addDocuments vc a now documents (Some embs) w = (r, w') \<and>
         trace w' = trace w @ [UpsertCall points] \<and> map p_vector points = embs \<and>
         isl r = isl (fst (qdrant_upsert a (provider w) points))))"
proof (intro conjI impI)
  assume "length documents \<noteq> length embs"
  then show "addDocuments vc a now documents (Some embs) w =
        (Inl (Error ''Qdrant document insertion failed: Documents and embeddings count mismatch''), w)"
    by (simp add: addDocuments_def)
next
  assume eq: "length documents = length embs"
  define points where "points = map2 (make_point now embs) [0..<length documents] documents"
  obtain r p' where up: "qdrant_upsert a (provider w) points = (r, p')"
    by (cases "qdrant_upsert a (provider w) points")
  have unfold: "addDocuments vc a now documents (Some embs) w =
      (case invoke (\<lambda>p. qdrant_upsert a p points) (UpsertCall points) w of
         (Inl e, w') \<Rightarrow> (Inl (Error (''Qdrant document insertion failed: '' @ message e)), w')
       | (Inr u, w') \<Rightarrow> (Inr (), w'))"
    unfolding addDocuments_def points_def using eq by (simp add: Let_def)
  have "\<exists>r' w'. addDocuments vc a now documents (Some embs) w = (r', w') \<and>
          trace w' = trace w @ [UpsertCall points] \<and> isl r' = isl r"
    unfolding unfold using up by (cases r) (simp_all add: invoke_def)
  moreover have "map p_vector points = embs" unfolding points_def using eq by (rule map_p_vector)
  ultimately show "\<exists>r w' points. addDocuments vc a now documents (Some embs) w = (r, w') \<and>
         trace w' = trace w @ [UpsertCall points] \<and> map p_vector points = embs \<and>
         isl r = isl (fst (qdrant_upsert a (provider w) points))"
    using up by auto
qed

text \<open>
  C5 as stated fails: with the configured dimension 768 and a vector of length 1, nothing
  at the adapter stops the upsert; the vector reaches the database and the call succeeds.
\<close>

theorem addDocuments_wrong_dimension_counterexample:
  "vs_dimension default_vc = 768 \<and> length [1::rat] = 1 \<and>
   fst (addDocuments default_vc demo_apis 0 [hello_chunk] (Some [[1]]) w0) = Inr () \<and>
   map p_vector (upserted (trace (snd (addDocuments default_vc demo_apis 0 [hello_chunk] (Some [[1]]) w0)))) = [[1]]"
  by code_simp

theorem addDocuments_checks_counts_only_witness:
  "length [hello_chunk] \<noteq> length ([]::embedding list) \<and>
   addDocuments default_vc demo_apis 0 [hello_chunk] (Some []) w0 =
     (Inl (Error ''Qdrant document insertion failed: Documents and embeddings count mismatch''), w0) \<and>
   length [hello_chunk] = length [[1::rat]] \<and>
   (\<exists>r w' points. addDocuments default_vc demo_apis 0 [hello_chunk] (Some [[1]]) w0 = (r, w') \<and>
         trace w' = trace w0 @ [UpsertCall points] \<and> map p_vector points = [[1]] \<and>
         isl r = isl (fst (qdrant_upsert demo_apis (provider w0) points)))"
  using addDocuments_checks_counts_only[of "[hello_chunk]" "[]" default_vc demo_apis 0 w0]
    addDocuments_checks_counts_only[of "[hello_chunk]" "[[1]]" default_vc demo_apis 0 w0]
  by simp

subsection \<open>Search\<close>

text \<open>
  What \<open>similaritySearch\<close> returns is what the database returned for a request that
  carries the vector and the limit: the same hits, in the same order, with their scores.
\<close>

lemma similaritySearch_maps_hits:
  assumes "similaritySearch a e (Some l) w = (Inr docs, w')"
  shows "\<exists>hits p'. qdrant_search a (provider w)
                     \<lparr>sr_vector = e, sr_limit = l, sr_with_payload = True,
                      sr_with_vectors = False\<rparr> = (Inr hits, p') \<and>
                   docs = map to_retrieved hits \<and> map r_score docs = map h_score hits"
  using assms
  by (auto simp: similaritySearch_def invoke_def Let_def to_retrieved_def
      split: prod.splits sum.splits)

text \<open>The threshold given to \<open>query\<close> has no effect on what it does.\<close>

lemma query_ignores_threshold:
  "query ec a q \<lparr>opt_topK = k, opt_threshold = t\<rparr> w =
   query ec a q \<lparr>opt_topK = k, opt_threshold = t'\<rparr> w"
  by (simp add: query_def Let_def)

text \<open>
  C4 on a query with \<open>topK = 5\<close> and \<open>threshold = 0.7\<close> against an index whose two
  best hits score 0.9 and 0.5: the claim asks that no document below the threshold be
  returned; \<open>query\<close> returns both.
\<close>

theorem query_returns_below_threshold:
  "map_sum id (map r_score)
     (fst (query small_ec demo_apis ''news'' \<lparr>opt_topK = Some 5, opt_threshold = Some (7 / 10)\<rparr> w0)) =
   Inr [9 / 10, 1 / 2]"
  by code_simp


section \<open>Properties of ingestion\<close>

lemma embedded_append [simp]: "embedded (xs @ ys) = embedded xs @ embedded ys"
  by (induction xs rule: embedded.induct) auto

lemma upserted_append [simp]: "upserted (xs @ ys) = upserted xs @ upserted ys"
  by (induction xs rule: upserted.induct) auto

lemma embedBatch_single_trace:
  "\<exists>r w'. embedBatch ec a [t] w = (r, w') \<and>
      trace w' = trace w @ [EmbedCall (Many [truncateText ec t])] \<and> redis w' = redis w"
proof -
  have b: "take (batchSize ec) [truncateText ec t] = [truncateText ec t]"
    using batchSize_pos[of ec] by (cases "batchSize ec") auto
  obtain r p' where api: "embed_api a (provider w) (Many [truncateText ec t]) = (r, p')"
    by (cases "embed_api a (provider w) (Many [truncateText ec t])")
  show ?thesis
  proof (cases r)
    case (Inl e)
    with api b show ?thesis
      by (simp add: embedBatch_def embed_loop.simps[of ec a "[truncateText ec t]" 0] invoke_def)
  next
    case (Inr data)
    with api b batchSize_pos[of ec] show ?thesis
      by (simp add: embedBatch_def embed_loop.simps[of ec a "[truncateText ec t]" 0]
          embed_loop.simps[of ec a "[truncateText ec t]" "batchSize ec"] invoke_def)
  qed
qed

lemma promise_all_debug:
  "\<exists>r w'. promise_all (map (\<lambda>text. embedBatch ec a [t]) texts) w = (r, w') \<and>
      embedded (trace w') = embedded (trace w) @ replicate (length texts) (Many [truncateText ec t]) \<and>
      upserted (trace w') = upserted (trace w)"
proof (induction texts arbitrary: w)
  case Nil
  then show ?case by simp
next
  case (Cons x texts)
  from embedBatch_single_trace[of ec a t w] obtain r1 w1 where
    1: "embedBatch ec a [t] w = (r1, w1)"
    and t1: "trace w1 = trace w @ [EmbedCall (Many [truncateText ec t])]"
    by blast
  from Cons.IH[of w1] obtain rs w2 where
    2: "promise_all (map (\<lambda>text. embedBatch ec a [t]) texts) w1 = (rs, w2)"
    and e2: "embedded (trace w2) =
               embedded (trace w1) @ replicate (length texts) (Many [truncateText ec t])"
    and u2: "upserted (trace w2) = upserted (trace w1)"
    by blast
  from 1 2 t1 e2 u2 show ?case by (simp add: replicate_app_Cons_same)
qed

text \<open>
  Whatever the articles and the providers, \<open>ingestArticles\<close> ends in an error: every
  request it sends to the embedding endpoint carries the fixed paragraph, one request per
  chunk, and it sends nothing to the index.
\<close>

lemma ingestArticles_never_stores:
  assumes "processDocuments ingest_chunker articles = Some chunks"
  shows "\<exists>e w'. ingestArticles ec vc a now articles w = Some (Inl e, w') \<and>
           embedded (trace w') =
             embedded (trace w) @ replicate (length chunks) (Many [truncateText ec debug_text]) \<and>
           upserted (trace w') = upserted (trace w)"
proof -
  from promise_all_debug[of ec a debug_text "map c_text chunks" w] obtain r w1 where
    pa: "promise_all (map (\<lambda>text. embedBatch ec a [debug_text]) (map c_text chunks)) w = (r, w1)"
    and e1: "embedded (trace w1) =
               embedded (trace w) @ replicate (length chunks) (Many [truncateText ec debug_text])"
    and u1: "upserted (trace w1) = upserted (trace w)"
    by auto
  show ?thesis
  proof (cases r)
    case (Inl e)
    with assms pa e1 u1 show ?thesis by (simp add: ingestArticles_def)
  next
    case (Inr embeddings)
    with assms pa e1 u1 show ?thesis by (simp add: ingestArticles_def addDocuments_def)
  qed
qed

lemma article1_chunks:
  "processDocuments ingest_chunker [article1] = Some [make_chunk 0 article1 1 0 ''hello'']"
  by (simp add: processDocuments_def chunkText_def chunkText_iters_def ingest_chunker_def
      article1_def doc_body_def or_str_def maxChunkSize_def or_num_def doc_chunks_def)

text \<open>
  C1 on one article of five characters, all providers working. The claim asks that the
  chunk's text \<open>hello\<close> be embedded and stored with its embedding. The code embeds the
  fixed paragraph instead, calls \<open>addDocuments\<close> without the embeddings, and fails with
  nothing stored.
\<close>

theorem ingestArticles_failing_input:
  "ingest_summary (ingestArticles small_ec default_vc demo_apis 0 [article1] w0) =
     Some (Inl (Error (''Failed to ingest articles: Qdrant document insertion failed: '' @
                       undefined_property ''length'')),
           [Many [debug_text]], 0) \<and>
   map_option (map c_text) (processDocuments ingest_chunker [article1]) = Some [''hello'']"
  by code_simp


section \<open>Properties of the chat controller\<close>

subsection \<open>Redis and the providers\<close>





lemma defaultTTL_pos: "0 < defaultTTL cc"
  by (simp add: defaultTTL_def or_num_def split: option.splits)

lemma invoke_redis: "invoke f c w = (r, w') \<Longrightarrow> redis w' = redis w"
  by (auto simp: invoke_def split: prod.splits)

lemma embedText_redis: "embedText ec a t w = (r, w') \<Longrightarrow> redis w' = redis w"
  by (auto simp: embedText_def Let_def split: prod.splits sum.splits list.splits
      dest: invoke_redis)

lemma similaritySearch_redis: "similaritySearch a e l w = (r, w') \<Longrightarrow> redis w' = redis w"
  by (auto simp: similaritySearch_def Let_def split: prod.splits sum.splits dest: invoke_redis)

lemma generateResponse_redis: "generateResponse a q docs h w = (r, w') \<Longrightarrow> redis w' = redis w"
  by (auto simp: generateResponse_def Let_def split: prod.splits sum.splits dest: invoke_redis)

lemma generateStreamingResponse_redis:
  "generateStreamingResponse a q docs h w = (r, w') \<Longrightarrow> redis w' = redis w"
  by (auto simp: generateStreamingResponse_def Let_def
      split: prod.splits sum.splits option.splits dest: invoke_redis)

lemma getChatSession_redis: "redis w' = redis w \<Longrightarrow> getChatSession now sid w' = getChatSession now sid w"
  by (simp add: getChatSession_def)

lemma getCachedQueryResult_redis:
  "redis w' = redis w \<Longrightarrow> getCachedQueryResult now q w' = getCachedQueryResult now q w"
  by (simp add: getCachedQueryResult_def)

lemma store_then_get:
  assumes "connected (redis w)" and "now \<le> later" and "later < now + defaultTTL cc"
  shows "getChatSession later sid (storeChatSession cc now sid msgs w) = Some msgs"
  using assms
  by (simp add: getChatSession_def storeChatSession_def setex_session_def get_session_def
      store_get_def store_setex_def)

lemma store_connected: "connected (redis (storeChatSession cc now sid msgs w)) = connected (redis w)"
  by (simp add: storeChatSession_def setex_session_def)

lemma cache_connected: "connected (redis (cacheQueryResult cc now q res w)) = connected (redis w)"
  by (simp add: cacheQueryResult_def setex_query_def)

lemma cache_keeps_sessions:
  "getChatSession later sid (cacheQueryResult cc now q res w) = getChatSession later sid w"
  by (simp add: getChatSession_def cacheQueryResult_def setex_query_def get_session_def)

lemma store_keeps_queries:
  "getCachedQueryResult later q (storeChatSession cc now sid msgs w) = getCachedQueryResult later q w"
  by (simp add: getCachedQueryResult_def storeChatSession_def setex_session_def get_query_def)

lemma cache_then_get:
  assumes "connected (redis w)" and "now \<le> later" and "later < now + defaultTTL cc"
  shows "getCachedQueryResult later q (cacheQueryResult cc now q res w) = Some res"
  using assms
  by (simp add: getCachedQueryResult_def cacheQueryResult_def setex_query_def get_query_def
      store_get_def store_setex_def)

lemma store_trace: "trace (storeChatSession cc now sid msgs w) = trace w"
  "provider (storeChatSession cc now sid msgs w) = provider w"
  by (simp_all add: storeChatSession_def split: sum.splits)

text \<open>The two ways in which \<open>sendMessage\<close> answers with status 200.\<close>

lemma sendMessage_ok_cases [consumes 2, case_names hit miss]:
  assumes run: "sendMessage cc ec a now sid msg w = (resp, w')" and ok: "status resp = 200"
  obtains (hit) cachedResult where "sid \<noteq> []" "msg \<noteq> []"
      "getCachedQueryResult now msg w = Some cachedResult"
      "resp = \<lparr>status = 200,
               body = Reply (bot_message now (cr_response cachedResult) (cr_sources cachedResult)) True\<rparr>"
      "w' = storeChatSession cc now sid
              ((case getChatSession now sid w of None \<Rightarrow> [] | Some h \<Rightarrow> h) @
               [user_message now msg,
                bot_message now (cr_response cachedResult) (cr_sources cachedResult)]) w"
    | (miss) response sources w3 where "sid \<noteq> []" "msg \<noteq> []"
      "getCachedQueryResult now msg w = None" "redis w3 = redis w"
      "resp = \<lparr>status = 200, body = Reply (bot_message now response sources) False\<rparr>"
      "w' = cacheQueryResult cc now msg \<lparr>cr_response = response, cr_sources = sources\<rparr>
              (storeChatSession cc now sid
                 ((case getChatSession now sid w of None \<Rightarrow> [] | Some h \<Rightarrow> h) @
                  [user_message now msg, bot_message now response sources]) w3)"
proof -
  from run ok have ne: "sid \<noteq> []" "msg \<noteq> []"
    by (auto simp: sendMessage_def split: if_splits)
  show ?thesis
  proof (cases "getCachedQueryResult now msg w")
    case (Some cachedResult)
    with run ne show ?thesis by (intro hit[of cachedResult]) (auto simp: sendMessage_def Let_def)
  next
    case None
    obtain r1 w1 where 1: "embedText ec a msg w = (r1, w1)" by (cases "embedText ec a msg w")
    with run ok ne None obtain queryEmbedding where q: "r1 = Inr queryEmbedding"
      by (cases r1) (auto simp: sendMessage_def Let_def failed_to_process_def)
    obtain r2 w2 where 2: "similaritySearch a queryEmbedding (Some 5) w1 = (r2, w2)"
      by (cases "similaritySearch a queryEmbedding (Some 5) w1")
    with run ok ne None 1 q obtain relevantDocs where d: "r2 = Inr relevantDocs"
      by (cases r2) (auto simp: sendMessage_def Let_def failed_to_process_def)
    define history where
      "history = (case getChatSession now sid w of None \<Rightarrow> [] | Some h \<Rightarrow> h) @ [user_message now msg]"
    obtain r3 w3 where 3: "generateResponse a msg relevantDocs history w2 = (r3, w3)"
      by (cases "generateResponse a msg relevantDocs history w2")
    with run ok ne None 1 q 2 d obtain response where g: "r3 = Inr response"
      by (cases r3) (auto simp: sendMessage_def Let_def failed_to_process_def history_def)
    have red: "redis w3 = redis w"
      using embedText_redis[OF 1] similaritySearch_redis[OF 2] generateResponse_redis[OF 3] by simp
    from run ne None 1 q 2 d 3 g
    have "resp = \<lparr>status = 200, body = Reply (bot_message now response (map source_of relevantDocs)) False\<rparr>"
      and "w' = cacheQueryResult cc now msg
                  \<lparr>cr_response = response, cr_sources = map source_of relevantDocs\<rparr>
                  (storeChatSession cc now sid
                     (history @ [bot_message now response (map source_of relevantDocs)]) w3)"
      by (auto simp: sendMessage_def Let_def history_def)
    with None red ne show ?thesis
      unfolding history_def
      by (intro miss[of w3 response "map source_of relevantDocs"]) auto
  qed
qed


lemma streamMessage_end_cases:
  assumes run: "streamMessage cc ec a now sid msg w = (Events evs, w')" and fin: "End \<in> set evs"
  shows "sid \<noteq> [] \<and> msg \<noteq> [] \<and>
    (\<exists>chunks sources w4.
        redis w4 = redis (storeChatSession cc now sid
                     ((case getChatSession now sid w of None \<Rightarrow> [] | Some h \<Rightarrow> h) @
                      [user_message now msg]) w) \<and>
        evs = [Start, Sources sources] @ map Fragment chunks @ [End] \<and>
        w' = cacheQueryResult cc now msg \<lparr>cr_response = concat chunks, cr_sources = sources\<rparr>
               (storeChatSession cc now sid
                  ((case getChatSession now sid w of None \<Rightarrow> [] | Some h \<Rightarrow> h) @
                   [user_message now msg, bot_message now (concat chunks) sources]) w4))"
proof -
  from run have ne: "sid \<noteq> []" "msg \<noteq> []"
    by (auto simp: streamMessage_def split: if_splits)
  define history where
    "history = (case getChatSession now sid w of None \<Rightarrow> [] | Some h \<Rightarrow> h) @ [user_message now msg]"
  define w1 where "w1 = storeChatSession cc now sid history w"
  obtain r2 w2 where 2: "embedText ec a msg w1 = (r2, w2)" by (cases "embedText ec a msg w1")
  have noend: "End \<notin> set [stream_error]" by (simp add: stream_error_def)
  from run fin ne 2 obtain queryEmbedding where q: "r2 = Inr queryEmbedding"
    by (cases r2) (auto simp: streamMessage_def Let_def history_def w1_def stream_error_def)
  obtain r3 w3 where 3: "similaritySearch a queryEmbedding (Some 5) w2 = (r3, w3)"
    by (cases "similaritySearch a queryEmbedding (Some 5) w2")
  from run fin ne 2 q 3 obtain relevantDocs where d: "r3 = Inr relevantDocs"
    by (cases r3) (auto simp: streamMessage_def Let_def history_def w1_def stream_error_def)
  obtain chunks err w4 where
    4: "generateStreamingResponse a msg relevantDocs history w3 = ((chunks, err), w4)"
    by (cases "generateStreamingResponse a msg relevantDocs history w3") auto
  from run fin ne 2 q 3 d 4 have e: "err = None"
    by (cases err) (auto simp: streamMessage_def Let_def history_def w1_def stream_error_def)
  have red: "redis w4 = redis w1"
    using embedText_redis[OF 2] similaritySearch_redis[OF 3]
      generateStreamingResponse_redis[OF 4] by simp
  from run ne 2 q 3 d 4 e
  have "evs = [Start, Sources (map source_of relevantDocs)] @ map Fragment chunks @ [End]"
    and "w' = cacheQueryResult cc now msg
                \<lparr>cr_response = concat chunks, cr_sources = map source_of relevantDocs\<rparr>
                (storeChatSession cc now sid
                   (history @ [bot_message now (concat chunks) (map source_of relevantDocs)]) w4)"
    by (auto simp: streamMessage_def Let_def history_def w1_def)
  with red ne show ?thesis unfolding history_def w1_def by auto
qed


lemma turn_user_assistant_aux:
  assumes conn: "connected (redis w)" and run: "sendMessage cc ec a now sid msg w = (resp, w1)"
    and ok: "status resp = 200"
  shows "\<exists>bot cached. body resp = Reply bot cached \<and> m_role bot = Assistant \<and>
           getChatSession now sid w1 =
             Some ((case getChatSession now sid w of None \<Rightarrow> [] | Some h \<Rightarrow> h) @
                   [user_message now msg, bot])"
proof -
  have now: "now \<le> now" "now < now + defaultTTL cc" using defaultTTL_pos[of cc] by simp_all
  have b: "m_role (bot_message now x y) = Assistant" for x y by (simp add: bot_message_def)
  from run ok show ?thesis
  proof (cases rule: sendMessage_ok_cases)
    case (hit cachedResult)
    with b store_then_get[OF conn now] show ?thesis by auto
  next
    case (miss response sources w3)
    then have "connected (redis w3)" using conn by simp
    from store_then_get[OF this now] miss b show ?thesis
      by (auto simp: cache_keeps_sessions)
  qed
qed


lemma w0_connected: "connected (redis w0)"
  by (simp add: w0_def empty_redis_def)

lemma first_turn_connected: "connected (redis (snd first_turn))"
  by code_simp

lemma first_turn_response:
  "fst first_turn = \<lparr>status = 200, body = Reply (bot_message 100 ''An answer.'' demo_sources) False\<rparr>"
  by code_simp

lemma first_stream_events:
  "fst first_stream =
     Events [Start, Sources demo_sources, Fragment ''An '', Fragment ''answer.'', End]"
  by code_simp


subsection \<open>One turn\<close>

text \<open>
  C7. With Redis reachable, every turn that ends well, a \<open>sendMessage\<close> answered with
  status 200 on the cache-hit path or on the retrieve-and-generate path, or a
  \<open>streamMessage\<close> that sends its \<open>end\<close> event, leaves as the stored history of the
  session the history it found (the empty one if there was none) followed by exactly two
  messages: the user's, then the assistant's.
\<close>

theorem turn_appends_user_and_assistant:
  assumes "connected (redis w)"
  shows "(sendMessage cc ec a now sid msg w = (resp, w1) \<and> status resp = 200 \<longrightarrow>
            (\<exists>user bot cached. body resp = Reply bot cached \<and>
               m_role user = User \<and> m_content user = msg \<and> m_role bot = Assistant \<and>
               getChatSession now sid w1 =
                 Some ((case getChatSession now sid w of None \<Rightarrow> [] | Some h \<Rightarrow> h) @ [user, bot]))) \<and>
         (streamMessage cc ec a now sid msg w = (Events evs, w2) \<and> End \<in> set evs \<longrightarrow>
            (\<exists>user bot. m_role user = User \<and> m_content user = msg \<and> m_role bot = Assistant \<and>
               getChatSession now sid w2 =
                 Some ((case getChatSession now sid w of None \<Rightarrow> [] | Some h \<Rightarrow> h) @ [user, bot])))"
proof (intro conjI impI)
  have now: "now \<le> now" "now < now + defaultTTL cc" using defaultTTL_pos[of cc] by simp_all
  have u: "m_role (user_message now msg) = User" "m_content (user_message now msg) = msg"
    by (simp_all add: user_message_def)
  have b: "m_role (bot_message now x y) = Assistant" for x y by (simp add: bot_message_def)
  {
    assume "sendMessage cc ec a now sid msg w = (resp, w1) \<and> status resp = 200"
    then have run: "sendMessage cc ec a now sid msg w = (resp, w1)" and ok: "status resp = 200"
      by simp_all
    from turn_user_assistant_aux[OF assms run ok] u
    show "\<exists>user bot cached. body resp = Reply bot cached \<and>
               m_role user = User \<and> m_content user = msg \<and> m_role bot = Assistant \<and>
               getChatSession now sid w1 =
                 Some ((case getChatSession now sid w of None \<Rightarrow> [] | Some h \<Rightarrow> h) @ [user, bot])"
      by blast
  }
  {
    assume "streamMessage cc ec a now sid msg w = (Events evs, w2) \<and> End \<in> set evs"
    then have run: "streamMessage cc ec a now sid msg w = (Events evs, w2)" and fin: "End \<in> set evs"
      by simp_all
    from streamMessage_end_cases[OF run fin] obtain chunks sources w4 where
      red: "redis w4 = redis (storeChatSession cc now sid
                     ((case getChatSession now sid w of None \<Rightarrow> [] | Some h \<Rightarrow> h) @
                      [user_message now msg]) w)"
      and w2: "w2 = cacheQueryResult cc now msg \<lparr>cr_response = concat chunks, cr_sources = sources\<rparr>
               (storeChatSession cc now sid
                  ((case getChatSession now sid w of None \<Rightarrow> [] | Some h \<Rightarrow> h) @
                   [user_message now msg, bot_message now (concat chunks) sources]) w4)"
      by blast
    from red assms have "connected (redis w4)" by (simp add: store_connected)
    from store_then_get[OF this now, of sid] have
      "getChatSession now sid w2 =
         Some ((case getChatSession now sid w of None \<Rightarrow> [] | Some h \<Rightarrow> h) @
               [user_message now msg, bot_message now (concat chunks) sources])"
      by (simp add: w2 cache_keeps_sessions)
    with u b[of "concat chunks" sources]
    show "\<exists>user bot. m_role user = User \<and> m_content user = msg \<and> m_role bot = Assistant \<and>
               getChatSession now sid w2 =
                 Some ((case getChatSession now sid w of None \<Rightarrow> [] | Some h \<Rightarrow> h) @ [user, bot])"
      by blast
  }
qed

theorem turn_appends_user_and_assistant_witness:
  "connected (redis w0) \<and>
   sendMessage default_cc small_ec demo_apis 100 ''s1'' ''hello'' w0 = first_turn \<and>
   status (fst first_turn) = 200 \<and>
   (\<exists>user bot cached. body (fst first_turn) = Reply bot cached \<and>
      m_role user = User \<and> m_content user = ''hello'' \<and> m_role bot = Assistant \<and>
      getChatSession 100 ''s1'' (snd first_turn) =
        Some ((case getChatSession 100 ''s1'' w0 of None \<Rightarrow> [] | Some h \<Rightarrow> h) @ [user, bot])) \<and>
   streamMessage default_cc small_ec demo_apis 100 ''s1'' ''hello'' w0 = first_stream \<and>
   End \<in> set [Start, Sources demo_sources, Fragment ''An '', Fragment ''answer.'', End] \<and>
   (\<exists>user bot. m_role user = User \<and> m_content user = ''hello'' \<and> m_role bot = Assistant \<and>
      getChatSession 100 ''s1'' (snd first_stream) =
        Some ((case getChatSession 100 ''s1'' w0 of None \<Rightarrow> [] | Some h \<Rightarrow> h) @ [user, bot]))"
proof -
  have d: "sendMessage default_cc small_ec demo_apis 100 ''s1'' ''hello'' w0 = first_turn"
    by (simp only: first_turn_def)
  then have s: "sendMessage default_cc small_ec demo_apis 100 ''s1'' ''hello'' w0 =
             (fst first_turn, snd first_turn)"
    by (simp only: prod.collapse)
  have ok: "status (fst first_turn) = 200" by (simp add: first_turn_response)
  have d': "streamMessage default_cc small_ec demo_apis 100 ''s1'' ''hello'' w0 = first_stream"
    by (simp only: first_stream_def)
  have t: "streamMessage default_cc small_ec demo_apis 100 ''s1'' ''hello'' w0 =
             (Events [Start, Sources demo_sources, Fragment ''An '', Fragment ''answer.'', End],
              snd first_stream)"
    unfolding d' using first_stream_events by (simp only: prod_eq_iff fst_conv snd_conv simp_thms)
  have e: "End \<in> set [Start, Sources demo_sources, Fragment ''An '', Fragment ''answer.'', End]"
    by simp
  note T = turn_appends_user_and_assistant[OF w0_connected, of default_cc small_ec demo_apis 100
      "''s1''" "''hello''" "fst first_turn" "snd first_turn"
      "[Start, Sources demo_sources, Fragment ''An '', Fragment ''answer.'', End]" "snd first_stream"]
  from T s ok have c1: "\<exists>user bot cached. body (fst first_turn) = Reply bot cached \<and>
      m_role user = User \<and> m_content user = ''hello'' \<and> m_role bot = Assistant \<and>
      getChatSession 100 ''s1'' (snd first_turn) =
        Some ((case getChatSession 100 ''s1'' w0 of None \<Rightarrow> [] | Some h \<Rightarrow> h) @ [user, bot])"
    by blast
  from T t e have c2: "\<exists>user bot. m_role user = User \<and> m_content user = ''hello'' \<and> m_role bot = Assistant \<and>
      getChatSession 100 ''s1'' (snd first_stream) =
        Some ((case getChatSession 100 ''s1'' w0 of None \<Rightarrow> [] | Some h \<Rightarrow> h) @ [user, bot])"
    by blast
  from w0_connected d ok c1 d' e c2 show ?thesis by (intro conjI)
qed


text \<open>
  C8. With Redis reachable, when a \<open>sendMessage\<close> for a query has answered from the
  providers, and so cached its result, a later \<open>sendMessage\<close> with the same query,
  before that cache entry expires, answers with the cached content and sources, marked
  \<open>cached: true\<close>, and calls no provider at all: the trace of calls to the embedding
  endpoint, the index and the model is unchanged.
\<close>

theorem repeated_query_is_served_from_cache:
  assumes conn: "connected (redis w)"
    and first: "sendMessage cc ec a t1 sid1 q w = (resp1, w1)"
    and ok: "status resp1 = 200"
    and miss: "body resp1 = Reply bot1 False"
    and time: "t1 \<le> t2" "t2 < t1 + defaultTTL cc"
    and sid2: "sid2 \<noteq> []"
  shows "\<exists>bot2 w2. sendMessage cc ec a t2 sid2 q w1 = (\<lparr>status = 200, body = Reply bot2 True\<rparr>, w2) \<and>
           m_content bot2 = m_content bot1 \<and> m_sources bot2 = m_sources bot1 \<and>
           trace w2 = trace w1 \<and> provider w2 = provider w1"
  using first ok
proof (cases rule: sendMessage_ok_cases)
  case (hit cachedResult)
  with miss show ?thesis by simp
next
  case (miss response sources w3)
  have "connected (redis (storeChatSession cc t1 sid1
                  ((case getChatSession t1 sid1 w of None \<Rightarrow> [] | Some h \<Rightarrow> h) @
                   [user_message t1 q, bot_message t1 response sources]) w3))"
    using conn miss(4) by (simp add: store_connected)
  from cache_then_get[OF this time]
  have hit: "getCachedQueryResult t2 q w1 = Some \<lparr>cr_response = response, cr_sources = sources\<rparr>"
    by (simp add: miss(6))
  from miss(5) \<open>body resp1 = Reply bot1 False\<close> have bot1: "bot1 = bot_message t1 response sources"
    by simp
  show ?thesis
    using hit miss(2) sid2
    by (simp add: sendMessage_def Let_def bot1 bot_message_def store_trace)
qed

theorem repeated_query_is_served_from_cache_witness:
  "connected (redis w0) \<and>
   sendMessage default_cc small_ec demo_apis 100 ''s1'' ''hello'' w0 = first_turn \<and>
   status (fst first_turn) = 200 \<and>
   body (fst first_turn) = Reply (bot_message 100 ''An answer.'' demo_sources) False \<and>
   (100::nat) \<le> 200 \<and> 200 < 100 + defaultTTL default_cc \<and> ''s1'' \<noteq> [] \<and>
   (\<exists>bot2 w2. sendMessage default_cc small_ec demo_apis 200 ''s1'' ''hello'' (snd first_turn) =
        (\<lparr>status = 200, body = Reply bot2 True\<rparr>, w2) \<and>
      m_content bot2 = m_content (bot_message 100 ''An answer.'' demo_sources) \<and>
      m_sources bot2 = m_sources (bot_message 100 ''An answer.'' demo_sources) \<and>
      trace w2 = trace (snd first_turn) \<and> provider w2 = provider (snd first_turn))"
proof -
  have d: "sendMessage default_cc small_ec demo_apis 100 ''s1'' ''hello'' w0 = first_turn"
    by (simp only: first_turn_def)
  then have s: "sendMessage default_cc small_ec demo_apis 100 ''s1'' ''hello'' w0 =
             (fst first_turn, snd first_turn)"
    by (simp only: prod.collapse)
  have ok: "status (fst first_turn) = 200" by (simp add: first_turn_response)
  have b: "body (fst first_turn) = Reply (bot_message 100 ''An answer.'' demo_sources) False"
    by (simp add: first_turn_response)
  have t1: "(100::nat) \<le> 200" by simp
  have t2: "200 < 100 + defaultTTL default_cc" by code_simp
  have n: "''s1'' \<noteq> []" by simp
  from w0_connected d ok b t1 t2 n
    repeated_query_is_served_from_cache[OF w0_connected s ok b t1 t2 n]
  show ?thesis by (intro conjI)
qed


subsection \<open>Sessions\<close>

text \<open>
  C9. With Redis reachable, after \<open>clearSession\<close> on a session, whatever messages it
  held, \<open>getSessionHistory\<close> within the lifetime of the entry answers with status 200
  and the empty history, not with status 404.
\<close>

theorem clear_then_history_is_empty:
  assumes "connected (redis w)" and "sid \<noteq> []"
    and "clearSession cc t1 sid w = (resp, w1)"
    and "t1 \<le> t2" and "t2 < t1 + defaultTTL cc"
  shows "status resp = 200 \<and>
         getSessionHistory t2 sid w1 = (\<lparr>status = 200, body = SessionHistory sid []\<rparr>, w1)"
proof -
  obtain d wd where del: "deleteChatSession sid w = (d, wd)" by (cases "deleteChatSession sid w")
  then have c: "connected (redis wd)" using assms(1)
    by (auto simp: deleteChatSession_def del_session_def split: if_splits)
  from assms(2,3) del have r: "resp = \<lparr>status = 200, body = Cleared\<rparr>"
    and w1: "w1 = storeChatSession cc t1 sid [] wd"
    by (auto simp: clearSession_def)
  from store_then_get[OF c assms(4,5), of sid "[]"] w1 assms(2) r show ?thesis
    by (simp add: getSessionHistory_def)
qed

theorem clear_then_history_is_empty_witness:
  "connected (redis (snd first_turn)) \<and> ''s1'' \<noteq> [] \<and>
   map_option length (getChatSession 150 ''s1'' (snd first_turn)) = Some 2 \<and>
   (150::nat) \<le> 200 \<and> 200 < 150 + defaultTTL default_cc \<and>
   status (fst (clearSession default_cc 150 ''s1'' (snd first_turn))) = 200 \<and>
   getSessionHistory 200 ''s1'' (snd (clearSession default_cc 150 ''s1'' (snd first_turn))) =
     (\<lparr>status = 200, body = SessionHistory ''s1'' []\<rparr>,
      snd (clearSession default_cc 150 ''s1'' (snd first_turn)))"
proof -
  have m: "map_option length (getChatSession 150 ''s1'' (snd first_turn)) = Some 2" by code_simp
  have n: "''s1'' \<noteq> []" by simp
  have c: "clearSession default_cc 150 ''s1'' (snd first_turn) =
             (fst (clearSession default_cc 150 ''s1'' (snd first_turn)),
              snd (clearSession default_cc 150 ''s1'' (snd first_turn)))"
    by (simp only: prod.collapse)
  have t1: "(150::nat) \<le> 200" by simp
  have t2: "200 < 150 + defaultTTL default_cc" by code_simp
  note T = clear_then_history_is_empty[OF first_turn_connected n c t1 t2]
  from first_turn_connected n m t1 t2 T[THEN conjunct1] T[THEN conjunct2]
  show ?thesis by (intro conjI)
qed




end
